theory Spec2Isabelle
  imports Main
begin

section \<open>BAC0 core/io: ReadProperty, ReadPropertyMultiple and WriteProperty\<close>

text \<open>
  A shallow embedding of \<^verbatim>\<open>BAC0/core/io/Read.py\<close> and \<^verbatim>\<open>BAC0/core/io/Write.py\<close>.
  Python exceptions are values of the type \<open>error\<close>; a function that may raise returns
  \<open>error + 'r\<close> with \<open>Inl\<close> for the raised exception. The bacpypes library, the BACnet
  stack behind \<^verbatim>\<open>this_application.request_io\<close> and the flag \<^verbatim>\<open>self._started\<close> are not
  part of the two modules: they are the fields of the record \<open>bacnet\<close>, which every
  function takes as its first argument.
\<close>

subsection \<open>Python values and exceptions\<close>

text \<open>
  The Python objects the two modules handle: \<^verbatim>\<open>None\<close>, booleans, unbounded integers,
  strings, lists, and any other object (a float, a tuple, a bacpypes object), which is
  opaque and carries only a label.
\<close>

datatype pyval =
    PyNone
  | PyBool bool
  | PyInt int
  | PyStr string
  | PyList "pyval list"
  | PyObject string

text \<open>The exception classes; messages are left out. \<open>OtherError\<close> is any exception a
  library call raises that the modules neither raise nor catch themselves.\<close>

datatype error =
    ApplicationNotStarted
  | NoResponseFromController
  | UnrecognizedService
  | SegmentationNotSupported
  | WritePropertyCastError
  | ValueError
  | TypeError
  | RuntimeError
  | IndexError
  | NameError
  | OtherError string

subsection \<open>String built-ins\<close>

text \<open>Strings are ASCII. \<^verbatim>\<open>str.split()\<close> cuts at runs of whitespace and yields no empty
  token.\<close>

definition isspace :: "char \<Rightarrow> bool" where
  "isspace c = (let n = (of_char c :: nat) in (9 \<le> n \<and> n \<le> 13) \<or> (28 \<le> n \<and> n \<le> 32))"

fun split_words :: "string \<Rightarrow> string \<Rightarrow> string list" where
  "split_words cur [] = (if cur = [] then [] else [cur])"
| "split_words cur (c # cs) =
     (if isspace c then (if cur = [] then split_words [] cs else cur # split_words [] cs)
      else split_words (cur @ [c]) cs)"

definition py_split :: "string \<Rightarrow> string list" where
  "py_split s = split_words [] s"

definition is_digit :: "char \<Rightarrow> bool" where
  "is_digit c = (let n = (of_char c :: nat) in 48 \<le> n \<and> n \<le> 57)"

definition digit_val :: "char \<Rightarrow> nat" where
  "digit_val c = of_char c - 48"

text \<open>\<^verbatim>\<open>str.isdigit()\<close>: a non-empty string of digits.\<close>

definition isdigit :: "string \<Rightarrow> bool" where
  "isdigit s = (s \<noteq> [] \<and> list_all is_digit s)"

text \<open>\<^verbatim>\<open>int(s)\<close> on a token (no whitespace inside): an optional sign, then digits, where
  single underscores may stand between two digits; anything else raises ValueError.
  The flag of \<open>parse_digits\<close> says that the previous character was a digit.\<close>

fun parse_digits :: "bool \<Rightarrow> nat \<Rightarrow> string \<Rightarrow> nat option" where
  "parse_digits prev acc [] = (if prev then Some acc else None)"
| "parse_digits prev acc (c # cs) =
     (if is_digit c then parse_digits True (acc * 10 + digit_val c) cs
      else if c = CHR ''_'' \<and> prev then parse_digits False acc cs
      else None)"

definition py_int :: "string \<Rightarrow> error + int" where
  "py_int s =
     (case s of
        [] \<Rightarrow> Inl ValueError
      | c # r \<Rightarrow>
          if c = CHR ''-'' then
            (case parse_digits False 0 r of None \<Rightarrow> Inl ValueError | Some n \<Rightarrow> Inr (- int n))
          else if c = CHR ''+'' then
            (case parse_digits False 0 r of None \<Rightarrow> Inl ValueError | Some n \<Rightarrow> Inr (int n))
          else
            (case parse_digits False 0 s of None \<Rightarrow> Inl ValueError | Some n \<Rightarrow> Inr (int n)))"

text \<open>\<^verbatim>\<open>str(n)\<close> of an integer.\<close>

fun str_nat :: "nat \<Rightarrow> string" where
  "str_nat n = (if n < 10 then [char_of (48 + n)] else str_nat (n div 10) @ [char_of (48 + n mod 10)])"

definition str_int :: "int \<Rightarrow> string" where
  "str_int i = (if i < 0 then CHR ''-'' # str_nat (nat (- i)) else str_nat (nat i))"

subsection \<open>The bacpypes data the modules see\<close>

text \<open>
  A datatype class as \<^verbatim>\<open>get_datatype\<close> returns it. The code asks four things of it:
  \<^verbatim>\<open>datatype is Integer\<close> (or \<^verbatim>\<open>Real\<close>, \<^verbatim>\<open>Unsigned\<close>), \<^verbatim>\<open>issubclass(datatype, Atomic)\<close>,
  \<^verbatim>\<open>issubclass(datatype, Array)\<close> and \<^verbatim>\<open>datatype.subtype\<close>. \<open>OtherAtomic\<close> is any other
  subclass of Atomic (CharacterString, Boolean, Enumerated, and the proper subclasses
  of Integer, Real and Unsigned); \<open>Constructed\<close> is any class that is neither atomic nor
  an array.
\<close>

datatype bac_type =
    Integer
  | Real
  | Unsigned
  | OtherAtomic string
  | ArrayOf bac_type
  | Constructed string

fun is_Atomic :: "bac_type \<Rightarrow> bool" where
  "is_Atomic Integer = True"
| "is_Atomic Real = True"
| "is_Atomic Unsigned = True"
| "is_Atomic (OtherAtomic _) = True"
| "is_Atomic (ArrayOf _) = False"
| "is_Atomic (Constructed _) = False"

fun is_Array :: "bac_type \<Rightarrow> bool" where
  "is_Array (ArrayOf _) = True"
| "is_Array _ = False"

fun subtype :: "bac_type \<Rightarrow> bac_type" where
  "subtype (ArrayOf t) = t"
| "subtype t = t"

text \<open>An object type or a property identifier: the token itself, or its integer when
  the token is all digits.\<close>

datatype ident = Num int | Name string

record rp_request =
  rq_pduDestination :: string
  rq_objectIdentifier :: "ident \<times> int"
  rq_propertyIdentifier :: ident
  rq_propertyArrayIndex :: "int option"

record property_reference =
  pr_propertyIdentifier :: string
  pr_propertyArrayIndex :: "int option"

record read_access_spec =
  ras_objectIdentifier :: "ident \<times> int"
  ras_listOfPropertyReferences :: "property_reference list"

record rpm_request =
  rpm_pduDestination :: string
  rpm_listOfReadAccessSpecs :: "read_access_spec list"

datatype request =
    ReadPropertyRequest rp_request
  | ReadPropertyMultipleRequest rpm_request

text \<open>The acknowledgments; \<open>'a\<close> is the type of an encoded property value (bacpypes'
  \<^verbatim>\<open>Any\<close>), which only \<^verbatim>\<open>cast_out\<close> reads.\<close>

record 'a rp_ack =
  ack_objectIdentifier :: "ident \<times> int"
  ack_propertyIdentifier :: ident
  ack_propertyArrayIndex :: "int option"
  ack_propertyValue :: 'a

text \<open>A read result is a choice: the value or the access error (its class and code).\<close>

datatype 'a read_result =
    PropertyValue 'a
  | PropertyAccessError string string

record 'a read_access_element =
  el_propertyIdentifier :: ident
  el_propertyArrayIndex :: "int option"
  el_readResult :: "'a read_result"

record 'a read_access_result =
  rar_objectIdentifier :: "ident \<times> int"
  rar_listOfResults :: "'a read_access_element list"

datatype 'a apdu =
    ReadPropertyACK "'a rp_ack"
  | ReadPropertyMultipleACK "'a read_access_result list"
  | SimpleAckPDU
  | OtherAPDU string

text \<open>An enumerated value as bacpypes hands it over: its name, or its number when the
  number has no name. A failure response is a reject or an abort with its reason code,
  or an error with \<^verbatim>\<open>errorCode\<close> and \<^verbatim>\<open>errorClass\<close> (\<open>None\<close> is Python's \<^verbatim>\<open>None\<close>).
  A completed IOCB holds a response, a failure, or neither; in the tests
  \<^verbatim>\<open>if iocb.ioResponse:\<close> and \<^verbatim>\<open>if iocb.ioError:\<close> an APDU counts as true.\<close>

datatype enumerated = EnumName string | EnumNumber int

datatype failure =
    RejectPDU int
  | AbortPDU int
  | Error "enumerated option" "enumerated option"

record 'a iocb =
  ioResponse :: "'a apdu option"
  ioError :: "failure option"

text \<open>
  The collaborators. \<open>request_io\<close> is the stack: it takes its own state and a request
  and gives the completed IOCB and its next state, so a device may answer the same
  request differently at different times. \<open>cast_out\<close> is \<^verbatim>\<open>Any.cast_out\<close>;
  \<open>mk_Address\<close> is the constructor \<^verbatim>\<open>Address(addr)\<close>; \<open>get_object_class\<close> is the
  truth value of what \<^verbatim>\<open>get_object_class\<close> returns.
\<close>

record ('a, 'g) bacnet =
  started :: bool
  get_object_class :: "string \<Rightarrow> bool"
  get_datatype :: "ident \<Rightarrow> ident \<Rightarrow> int \<Rightarrow> bac_type option"
  PropertyIdentifier_enumerations :: "string list"
  RejectReason_enumerations :: "(string \<times> int) list"
  AbortReason_enumerations :: "(string \<times> int) list"
  mk_Address :: "string \<Rightarrow> error + string"
  cast_out :: "'a \<Rightarrow> bac_type \<Rightarrow> error + pyval"
  request_io :: "'g \<Rightarrow> request \<Rightarrow> 'a iocb \<times> 'g"

subsection \<open>Logging and the state of a call\<close>

text \<open>What a call changes outside its result: the state of the stack, the requests handed
  to it so far, and the log.\<close>

datatype level = DEBUG | WARNING | ERROR

record 'g world =
  gateway :: 'g
  sent :: "request list"
  logged :: "(level \<times> string) list"

text \<open>
  Modelled from the spec: the helpers \<^verbatim>\<open>log_debug\<close>, \<^verbatim>\<open>log_warning\<close> and \<^verbatim>\<open>log_error\<close>
  come from the decorator \<^verbatim>\<open>note_and_log\<close> of \<^verbatim>\<open>BAC0/core/utils/notes.py\<close>, which is
  not among the sources; the spec names logging an external collaborator. A call
  appends its level and its format string to the log and never raises; the arguments
  it formats are left out.
\<close>

definition log_debug :: "string \<Rightarrow> 'g world \<Rightarrow> 'g world" where
  "log_debug txt w = w\<lparr>logged := logged w @ [(DEBUG, txt)]\<rparr>"

definition log_warning :: "string \<Rightarrow> 'g world \<Rightarrow> 'g world" where
  "log_warning txt w = w\<lparr>logged := logged w @ [(WARNING, txt)]\<rparr>"

definition log_error :: "string \<Rightarrow> 'g world \<Rightarrow> 'g world" where
  "log_error txt w = w\<lparr>logged := logged w @ [(ERROR, txt)]\<rparr>"

text \<open>\<^verbatim>\<open>iocb = IOCB(request); deferred(request_io, iocb); ...; iocb.wait()\<close>: the request
  is recorded as sent and the stack completes the IOCB.\<close>

definition submit :: "('a, 'g) bacnet \<Rightarrow> request \<Rightarrow> 'g world \<Rightarrow> 'a iocb \<times> 'g world" where
  "submit E req w =
     (case request_io E (gateway w) req of
        (iocb, g') \<Rightarrow> (iocb, w\<lparr>gateway := g', sent := sent w @ [req]\<rparr>))"

subsection \<open>Read.py: find_reason\<close>

fun truthy :: "enumerated option \<Rightarrow> bool" where
  "truthy None = False"
| "truthy (Some (EnumName s)) = (s \<noteq> [])"
| "truthy (Some (EnumNumber n)) = (n \<noteq> 0)"

text \<open>\<^verbatim>\<open>'%s' % (x)\<close>.\<close>

fun str_enumerated :: "enumerated option \<Rightarrow> string" where
  "str_enumerated None = ''None''"
| "str_enumerated (Some (EnumName s)) = s"
| "str_enumerated (Some (EnumNumber n)) = str_int n"

text \<open>\<^verbatim>\<open>[k for k, v in reasons.items() if v == code][0]\<close>, and \<^verbatim>\<open>code\<close> on IndexError.\<close>

definition reason_of_code :: "(string \<times> int) list \<Rightarrow> int \<Rightarrow> pyval" where
  "reason_of_code reasons code =
     (case filter (\<lambda>kv. snd kv = code) reasons of
        [] \<Rightarrow> PyInt code
      | kv # _ \<Rightarrow> PyStr (fst kv))"

text \<open>
  \<^verbatim>\<open>find_reason\<close> is a function of the module, not a method: in its last branch the
  call \<^verbatim>\<open>self.log_warning(...)\<close> names a variable that does not exist, so Python raises
  NameError before the \<^verbatim>\<open>return 'UnKnown Error...'\<close> below it is reached.
\<close>

definition find_reason :: "('a, 'g) bacnet \<Rightarrow> failure \<Rightarrow> error + pyval" where
  "find_reason E apdu =
     (case apdu of
        RejectPDU code \<Rightarrow> Inr (reason_of_code (RejectReason_enumerations E) code)
      | AbortPDU code \<Rightarrow> Inr (reason_of_code (AbortReason_enumerations E) code)
      | Error errorCode errorClass \<Rightarrow>
          if truthy errorCode \<and> truthy errorClass
          then Inr (PyStr (str_enumerated errorCode))
          else Inl NameError)"

subsection \<open>Read.py: build_rp_request\<close>

text \<open>The parameter \<^verbatim>\<open>bacoid\<close> is passed along and never used; it is left out.\<close>

definition build_rp_request ::
  "('a, 'g) bacnet \<Rightarrow> string list \<Rightarrow> int option \<Rightarrow> int \<Rightarrow> 'g world
     \<Rightarrow> (error + rp_request) \<times> 'g world" where
  "build_rp_request E args arr_index vendor_id w =
     (case take 4 args of
        [addr, obj_type_tok, obj_inst_tok, prop_id_tok] \<Rightarrow>
          (case (if isdigit obj_type_tok then map_sum id Num (py_int obj_type_tok)
                 else if \<not> get_object_class E obj_type_tok then Inl ValueError
                 else Inr (Name obj_type_tok)) of
             Inl e \<Rightarrow> (Inl e, w)
           | Inr obj_type \<Rightarrow>
           (case py_int obj_inst_tok of
              Inl e \<Rightarrow> (Inl e, w)
            | Inr obj_inst \<Rightarrow>
            (case (if isdigit prop_id_tok then map_sum id Num (py_int prop_id_tok)
                   else Inr (Name prop_id_tok)) of
               Inl e \<Rightarrow> (Inl e, w)
             | Inr prop_id \<Rightarrow>
             (case get_datatype E obj_type prop_id vendor_id of
                None \<Rightarrow> (Inl ValueError, w)
              | Some datatype \<Rightarrow>
              (case mk_Address E addr of
                 Inl e \<Rightarrow> (Inl e, w)
               | Inr dest \<Rightarrow>
                 let request = \<lparr>rq_pduDestination = dest,
                                rq_objectIdentifier = (obj_type, obj_inst),
                                rq_propertyIdentifier = prop_id,
                                rq_propertyArrayIndex = arr_index\<rparr>
                 in if length args = 5 then
                      (case py_int (args ! 4) of
                         Inl e \<Rightarrow> (Inl e, w)
                       | Inr indx \<Rightarrow>
                           (Inr (request\<lparr>rq_propertyArrayIndex := Some indx\<rparr>),
                            log_debug ''- request: %r'' w))
                    else (Inr request, log_debug ''- request: %r'' w))))))
      | _ \<Rightarrow> (Inl ValueError, w))"

subsection \<open>Read.py: read and _split_the_read_request\<close>

text \<open>
  The block both \<^verbatim>\<open>read\<close> and \<^verbatim>\<open>readMultiple\<close> run on a value whose datatype is
  known: "special case for array parts, others are managed by cast_out".
\<close>

definition cast_out_array_part ::
  "('a, 'g) bacnet \<Rightarrow> bac_type \<Rightarrow> int option \<Rightarrow> 'a \<Rightarrow> error + pyval" where
  "cast_out_array_part E datatype indx v =
     (if is_Array datatype \<and> indx \<noteq> None then
        (if indx = Some 0 then cast_out E v Unsigned
         else cast_out E v (subtype datatype))
      else cast_out E v datatype)"

text \<open>The branch \<^verbatim>\<open>if iocb.ioResponse:\<close> of \<^verbatim>\<open>read\<close>; every path of it returns or
  raises.\<close>

definition read_ioResponse ::
  "('a, 'g) bacnet \<Rightarrow> int \<Rightarrow> 'a apdu \<Rightarrow> 'g world \<Rightarrow> (error + pyval) \<times> 'g world" where
  "read_ioResponse E vendor_id apdu w =
     (case apdu of
        ReadPropertyACK ack \<Rightarrow>
          (case get_datatype E (fst (ack_objectIdentifier ack)) (ack_propertyIdentifier ack) vendor_id of
             None \<Rightarrow> (Inl TypeError, log_debug ''    - datatype: %r'' w)
           | Some datatype \<Rightarrow>
               (case cast_out_array_part E datatype (ack_propertyArrayIndex ack) (ack_propertyValue ack) of
                  Inl e \<Rightarrow> (Inl e, log_debug ''    - datatype: %r'' w)
                | Inr v \<Rightarrow>
                    (Inr v, log_debug ''    - value: %r'' (log_debug ''    - datatype: %r'' w))))
      | _ \<Rightarrow>
          (Inr PyNone, log_warning ''APDU : %s / %s'' (log_debug ''    - not an ack'' w)))"

text \<open>\<^verbatim>\<open>range(1, nmbr_obj+1)\<close>: an integer (a boolean is one) gives the indices, any
  other object raises TypeError.\<close>

fun range_from_1 :: "pyval \<Rightarrow> error + int list" where
  "range_from_1 (PyInt n) = Inr [1..n]"
| "range_from_1 (PyBool b) = Inr (if b then [1] else [])"
| "range_from_1 _ = Inl TypeError"

text \<open>
  One pass through the body of \<^verbatim>\<open>read\<close> up to the point where it either leaves
  (\<open>Direct\<close>: it returned or raised) or hands over to \<^verbatim>\<open>_split_the_read_request\<close>
  (\<open>PerIndex\<close>, on the reason segmentationNotSupported). The \<^verbatim>\<open>except\<close> clause catches
  ReadPropertyException, which nothing in the \<^verbatim>\<open>try\<close> block raises: an exception of
  \<^verbatim>\<open>build_rp_request\<close> leaves \<^verbatim>\<open>read\<close>.
\<close>

datatype 'g read_state =
    Direct "(error + pyval) \<times> 'g world"
  | PerIndex "'g world"

definition read_body ::
  "('a, 'g) bacnet \<Rightarrow> 'g world \<Rightarrow> string \<Rightarrow> int option \<Rightarrow> int \<Rightarrow> 'g read_state" where
  "read_body E w args arr_index vendor_id =
     (if \<not> started E then Direct (Inl ApplicationNotStarted, w)
      else
        (case build_rp_request E (py_split args) arr_index vendor_id
                (log_debug ''do_read %r'' w) of
           (Inl e, w1) \<Rightarrow> Direct (Inl e, w1)
         | (Inr req, w1) \<Rightarrow>
           (case submit E (ReadPropertyRequest req) w1 of
              (iocb, w2) \<Rightarrow>
              (case ioResponse iocb of
                 Some apdu \<Rightarrow>
                   Direct (read_ioResponse E vendor_id apdu (log_debug ''    - iocb: %r'' w2))
               | None \<Rightarrow>
                 (case ioError iocb of
                    None \<Rightarrow> Direct (Inr PyNone, log_debug ''    - iocb: %r'' w2)
                  | Some err \<Rightarrow>
                    (case find_reason E err of
                       Inl e \<Rightarrow> Direct (Inl e, log_debug ''    - iocb: %r'' w2)
                     | Inr reason \<Rightarrow>
                         if reason = PyStr ''segmentationNotSupported'' then
                           PerIndex
                             (log_debug ''The Request was : %s''
                               (log_debug
                                 ''Segmentation not supported... will read properties one by one...''
                                 (log_debug ''    - iocb: %r'' w2)))
                         else if reason = PyStr ''unknownProperty'' then
                           Direct (Inl NoResponseFromController,
                                   log_warning ''Unknown property %s''
                                     (log_debug ''    - iocb: %r'' w2))
                         else
                           Direct (Inl NoResponseFromController,
                                   log_debug ''    - iocb: %r'' w2)))))))"

text \<open>
  \<^verbatim>\<open>read\<close> and \<^verbatim>\<open>_split_the_read_request\<close> call each other, with no bound in the code.
  The number is the depth of calls of \<^verbatim>\<open>read\<close> still allowed; \<open>None\<close> says that it was
  used up, which is not an outcome of the Python code. \<open>split_loop\<close> is the \<^verbatim>\<open>for\<close>
  loop of \<^verbatim>\<open>_split_the_read_request\<close>, which calls \<^verbatim>\<open>self.read(args, arr_index=i)\<close> with
  the default \<^verbatim>\<open>vendor_id=0\<close>.
\<close>

fun read ::
  "('a, 'g) bacnet \<Rightarrow> nat \<Rightarrow> 'g world \<Rightarrow> string \<Rightarrow> int option \<Rightarrow> int
     \<Rightarrow> ((error + pyval) \<times> 'g world) option"
and split_the_read_request ::
  "('a, 'g) bacnet \<Rightarrow> nat \<Rightarrow> 'g world \<Rightarrow> string \<Rightarrow> int option
     \<Rightarrow> ((error + pyval) \<times> 'g world) option"
and split_loop ::
  "('a, 'g) bacnet \<Rightarrow> nat \<Rightarrow> 'g world \<Rightarrow> string \<Rightarrow> int list \<Rightarrow> pyval list
     \<Rightarrow> ((error + pyval) \<times> 'g world) option"
where
  "read E 0 w args arr_index vendor_id = None"
| "read E (Suc n) w args arr_index vendor_id =
     (case read_body E w args arr_index vendor_id of
        Direct r \<Rightarrow> Some r
      | PerIndex w1 \<Rightarrow> split_the_read_request E n w1 args arr_index)"
| "split_the_read_request E n w args arr_index =
     (case read E n w args (Some 0) 0 of
        None \<Rightarrow> None
      | Some (Inl e, w1) \<Rightarrow> Some (Inl e, w1)
      | Some (Inr nmbr_obj, w1) \<Rightarrow>
          (case range_from_1 nmbr_obj of
             Inl e \<Rightarrow> Some (Inl e, w1)
           | Inr indices \<Rightarrow> split_loop E n w1 args indices []))"
| "split_loop E n w args [] objlist = Some (Inr (PyList objlist), w)"
| "split_loop E n w args (i # indices) objlist =
     (case read E n w args (Some i) 0 of
        None \<Rightarrow> None
      | Some (Inl e, w1) \<Rightarrow> Some (Inl e, w1)
      | Some (Inr v, w1) \<Rightarrow> split_loop E n w1 args indices (objlist @ [v]))"

subsection \<open>Read.py: build_rpm_request\<close>

text \<open>
  The two \<^verbatim>\<open>while\<close> loops walk the tokens with an index; the model passes the tokens
  not yet consumed. \<open>rpm_properties\<close> is the inner loop; it gives the property
  references of one object and the tokens left when it stops.
\<close>

fun rpm_properties ::
  "('a, 'g) bacnet \<Rightarrow> ident \<Rightarrow> string list \<Rightarrow> property_reference list
     \<Rightarrow> error + (property_reference list \<times> string list)" where
  "rpm_properties E obj_type [] prop_reference_list = Inr (prop_reference_list, [])"
| "rpm_properties E obj_type (prop_id # rest) prop_reference_list =
     (if prop_id \<notin> set (PropertyIdentifier_enumerations E)
      then Inr (prop_reference_list, prop_id # rest)
      else if prop_id \<notin> set [''all'', ''required'', ''optional'']
              \<and> get_datatype E obj_type (Name prop_id) 0 = None
      then Inl ValueError
      else
        (case rest of
           [] \<Rightarrow>
             rpm_properties E obj_type []
               (prop_reference_list @
                  [\<lparr>pr_propertyIdentifier = prop_id, pr_propertyArrayIndex = None\<rparr>])
         | tok # rest' \<Rightarrow>
             if isdigit tok then
               (case py_int tok of
                  Inl e \<Rightarrow> Inl e
                | Inr indx \<Rightarrow>
                    rpm_properties E obj_type rest'
                      (prop_reference_list @
                         [\<lparr>pr_propertyIdentifier = prop_id, pr_propertyArrayIndex = Some indx\<rparr>]))
             else
               rpm_properties E obj_type rest
                 (prop_reference_list @
                    [\<lparr>pr_propertyIdentifier = prop_id, pr_propertyArrayIndex = None\<rparr>])))"

lemma rpm_properties_rest:
  "rpm_properties E ot toks acc = Inr (ps, left) \<Longrightarrow> length left \<le> length toks"
proof (induction "length toks" arbitrary: toks acc rule: less_induct)
  case less
  show ?case
  proof (cases toks)
    case Nil
    with less.prems show ?thesis by simp
  next
    case (Cons prop_id rest)
    note step = less.hyps [rotated]
    have "rpm_properties E ot (prop_id # rest) acc = Inr (ps, left)"
      using less.prems unfolding Cons .
    then show ?thesis
      apply (subst (asm) rpm_properties.simps(2))
      apply (auto simp del: rpm_properties.simps simp: Cons
                  split: if_splits list.splits sum.splits dest!: step)
      done
  qed
qed

function rpm_specs ::
  "('a, 'g) bacnet \<Rightarrow> string list \<Rightarrow> read_access_spec list
     \<Rightarrow> error + read_access_spec list" where
  "rpm_specs E [] read_access_spec_list = Inr read_access_spec_list"
| "rpm_specs E (obj_type_tok # rest) read_access_spec_list =
     (case (if isdigit obj_type_tok then map_sum id Num (py_int obj_type_tok)
            else if \<not> get_object_class E obj_type_tok then Inl ValueError
            else Inr (Name obj_type_tok)) of
        Inl e \<Rightarrow> Inl e
      | Inr obj_type \<Rightarrow>
        (case rest of
           [] \<Rightarrow> Inl IndexError
         | obj_inst_tok # rest' \<Rightarrow>
           (case py_int obj_inst_tok of
              Inl e \<Rightarrow> Inl e
            | Inr obj_inst \<Rightarrow>
              (case rpm_properties E obj_type rest' [] of
                 Inl e \<Rightarrow> Inl e
               | Inr (prop_reference_list, rest'') \<Rightarrow>
                   if prop_reference_list = [] then Inl ValueError
                   else
                     rpm_specs E rest''
                       (read_access_spec_list @
                          [\<lparr>ras_objectIdentifier = (obj_type, obj_inst),
                            ras_listOfPropertyReferences = prop_reference_list\<rparr>])))))"
  by pat_completeness auto
termination
proof (relation "measure (\<lambda>(E, toks, acc). length toks)")
  show "wf (measure (\<lambda>(E :: ('a, 'g) bacnet, toks :: string list, acc :: read_access_spec list). length toks))"
    by simp
next
  fix E :: "('a, 'g) bacnet" and obj_type_tok rest read_access_spec_list obj_type obj_inst_tok
    rest' obj_inst x prop_reference_list rest''
  assume "rpm_properties E obj_type rest' [] = Inr x" "(prop_reference_list, rest'') = x"
    "rest = obj_inst_tok # rest'"
  then have "length rest'' \<le> length rest'"
    using rpm_properties_rest [of E obj_type rest' "[]" prop_reference_list rest''] by simp
  then show "((E, rest'',
        read_access_spec_list @
          [\<lparr>ras_objectIdentifier = (obj_type, obj_inst),
            ras_listOfPropertyReferences = prop_reference_list\<rparr>]),
       E, obj_type_tok # rest, read_access_spec_list)
      \<in> measure (\<lambda>(E, toks, acc). length toks)"
    using \<open>rest = obj_inst_tok # rest'\<close> by simp
qed

definition build_rpm_request ::
  "('a, 'g) bacnet \<Rightarrow> string list \<Rightarrow> 'g world \<Rightarrow> (error + rpm_request) \<times> 'g world" where
  "build_rpm_request E args w =
     (case args of
        [] \<Rightarrow> (Inl IndexError, w)
      | addr # rest \<Rightarrow>
          (case rpm_specs E rest [] of
             Inl e \<Rightarrow> (Inl e, w)
           | Inr read_access_spec_list \<Rightarrow>
               if read_access_spec_list = [] then (Inl RuntimeError, w)
               else
                 (case mk_Address E addr of
                    Inl e \<Rightarrow> (Inl e, w)
                  | Inr dest \<Rightarrow>
                      (Inr \<lparr>rpm_pduDestination = dest,
                            rpm_listOfReadAccessSpecs = read_access_spec_list\<rparr>,
                       log_debug ''    - request: %r'' w))))"

subsection \<open>Read.py: readMultiple\<close>

text \<open>
  The two \<^verbatim>\<open>for\<close> loops over the acknowledgment. A loop gives \<open>Some r\<close> when the
  function was left inside it (a \<^verbatim>\<open>return\<close> or a \<^verbatim>\<open>raise\<close>) and \<open>None\<close> when it ran to
  its end, together with the list \<^verbatim>\<open>values\<close> and the state. The \<^verbatim>\<open>return values\<close> of
  line 255 stands inside the \<^verbatim>\<open>else\<close> branch, right after \<^verbatim>\<open>values.append(value)\<close>.
  The text that \<^verbatim>\<open>str\<close> gives for the access error object is left out of the log.
\<close>

fun rpm_elements ::
  "('a, 'g) bacnet \<Rightarrow> ident \<times> int \<Rightarrow> 'a read_access_element list \<Rightarrow> pyval list
     \<Rightarrow> 'g world \<Rightarrow> (error + pyval) option \<times> pyval list \<times> 'g world" where
  "rpm_elements E objectIdentifier [] values w = (None, values, w)"
| "rpm_elements E objectIdentifier (element # rest) values w =
     (let w1 = log_debug ''- propertyArrayIndex: %r''
                 (log_debug ''- propertyIdentifier: %r'' w);
          w2 = (case el_propertyArrayIndex element of
                  None \<Rightarrow> w1
                | Some i \<Rightarrow> log_error (''['' @ str_int i @ '']'') w1)
      in case el_readResult element of
           PropertyAccessError errorClass errorCode \<Rightarrow>
             rpm_elements E objectIdentifier rest values (log_error '' ! '' w2)
         | PropertyValue propertyValue \<Rightarrow>
             (case get_datatype E (fst objectIdentifier) (el_propertyIdentifier element) 0 of
                None \<Rightarrow> (Some (Inl TypeError), values, log_debug ''- datatype: %r'' w2)
              | Some datatype \<Rightarrow>
                  (case cast_out_array_part E datatype (el_propertyArrayIndex element)
                          propertyValue of
                     Inl e \<Rightarrow> (Some (Inl e), values, log_debug ''- datatype: %r'' w2)
                   | Inr v \<Rightarrow>
                       (Some (Inr (PyList (values @ [v]))), values @ [v],
                        log_debug ''- value: %r'' (log_debug ''- datatype: %r'' w2)))))"

fun rpm_results ::
  "('a, 'g) bacnet \<Rightarrow> 'a read_access_result list \<Rightarrow> pyval list \<Rightarrow> 'g world
     \<Rightarrow> (error + pyval) option \<times> pyval list \<times> 'g world" where
  "rpm_results E [] values w = (None, values, w)"
| "rpm_results E (result # rest) values w =
     (case rpm_elements E (rar_objectIdentifier result) (rar_listOfResults result) values
             (log_debug ''- objectIdentifier: %r'' w) of
        (Some r, values1, w1) \<Rightarrow> (Some r, values1, w1)
      | (None, values1, w1) \<Rightarrow> rpm_results E rest values1 w1)"

text \<open>The branch \<^verbatim>\<open>if iocb.ioError:\<close> of \<^verbatim>\<open>readMultiple\<close>, and the \<^verbatim>\<open>None\<close> that the
  function returns when it falls off its end.\<close>

definition readMultiple_ioError ::
  "('a, 'g) bacnet \<Rightarrow> 'a iocb \<Rightarrow> pyval list \<Rightarrow> 'g world \<Rightarrow> (error + pyval) \<times> 'g world" where
  "readMultiple_ioError E iocb values w =
     (case ioError iocb of
        None \<Rightarrow> (Inr PyNone, w)
      | Some err \<Rightarrow>
          (case find_reason E err of
             Inl e \<Rightarrow> (Inl e, w)
           | Inr reason \<Rightarrow>
               let w1 = log_debug ''The Request was : %s''
                          (log_debug ''APDU Abort Reject Reason : %s'' w)
               in if reason = PyStr ''unrecognizedService'' then (Inl UnrecognizedService, w1)
                  else if reason = PyStr ''segmentationNotSupported''
                  then (Inl SegmentationNotSupported, w1)
                  else if reason = PyStr ''unknownProperty''
                  then (Inr (PyList (values @ [PyStr []])),
                        log_warning ''Unknown property %s'' w1)
                  else (Inr (PyList (values @ [PyStr []])),
                        log_warning ''No response from controller'' w1)))"

text \<open>The first \<^verbatim>\<open>log_debug\<close> of \<^verbatim>\<open>readMultiple\<close> is called with the class
  \<^verbatim>\<open>ReadProperty\<close> before the format string; the log keeps the format string. As in
  \<^verbatim>\<open>read\<close>, the \<^verbatim>\<open>except\<close> clause catches an exception that the \<^verbatim>\<open>try\<close> block does not
  raise.\<close>

definition readMultiple ::
  "('a, 'g) bacnet \<Rightarrow> 'g world \<Rightarrow> string \<Rightarrow> (error + pyval) \<times> 'g world" where
  "readMultiple E w args =
     (if \<not> started E then (Inl ApplicationNotStarted, w)
      else
        (case build_rpm_request E (py_split args) (log_debug ''readMultiple %r'' w) of
           (Inl e, w1) \<Rightarrow> (Inl e, w1)
         | (Inr req, w1) \<Rightarrow>
           (case submit E (ReadPropertyMultipleRequest req) w1 of
              (iocb, w2) \<Rightarrow>
              (case ioResponse iocb of
                 None \<Rightarrow> readMultiple_ioError E iocb [] w2
               | Some (ReadPropertyMultipleACK listOfReadAccessResults) \<Rightarrow>
                   (case rpm_results E listOfReadAccessResults [] w2 of
                      (Some r, values, w3) \<Rightarrow> (r, w3)
                    | (None, values, w3) \<Rightarrow> readMultiple_ioError E iocb values w3)
               | Some _ \<Rightarrow>
                   (Inr PyNone,
                    log_warning ''APDU : %s / %s'' (log_warning ''- not an ack'' w2))))))"

subsection \<open>Write.py: build_wp_request\<close>

text \<open>
  What \<^verbatim>\<open>build_wp_request\<close> asks of bacpypes and of Python. \<open>'o\<close> is the type of a
  bacpypes value object and \<open>'a\<close> that of an \<^verbatim>\<open>Any\<close>. \<open>construct t v\<close> is the
  constructor call \<^verbatim>\<open>t(v)\<close> of the datatype class \<open>t\<close>, \<open>Null\<close> is \<^verbatim>\<open>Null()\<close>, \<open>py_float\<close>
  is the built-in \<^verbatim>\<open>float\<close>, \<open>Any\<close> is the empty \<^verbatim>\<open>Any()\<close>, and \<open>cast_in\<close> gives the
  \<^verbatim>\<open>Any\<close> that holds the object.
\<close>

record ('o, 'a) bacnet_write =
  w_get_datatype :: "ident \<Rightarrow> ident \<Rightarrow> int \<Rightarrow> bac_type option"
  w_mk_Address :: "string \<Rightarrow> error + string"
  construct :: "bac_type \<Rightarrow> pyval \<Rightarrow> error + 'o"
  Null :: 'o
  py_float :: "string \<Rightarrow> error + pyval"
  cast_in :: "'o \<Rightarrow> error + 'a"
  Any :: 'a

record 'a wp_request =
  wq_pduDestination :: string
  wq_objectIdentifier :: "ident \<times> int"
  wq_propertyIdentifier :: ident
  wq_propertyValue :: 'a
  wq_propertyArrayIndex :: "int option"
  wq_priority :: "int option"

text \<open>
  The block "change atomic values into something encodeable, null is a special case".
  \<open>value\<close> is the fifth token, a Python string. With no datatype (\<^verbatim>\<open>get_datatype\<close> gave
  \<^verbatim>\<open>None\<close>) \<^verbatim>\<open>issubclass\<close> raises TypeError. A string is an instance of no bacpypes
  class, so both \<^verbatim>\<open>isinstance\<close> tests fail and their branches raise TypeError.
\<close>

definition encodeable ::
  "('o, 'a) bacnet_write \<Rightarrow> bac_type option \<Rightarrow> int option \<Rightarrow> string \<Rightarrow> error + 'o" where
  "encodeable L datatype indx value =
     (if value = ''null'' then Inr (Null L)
      else
        (case datatype of
           None \<Rightarrow> Inl TypeError
         | Some dt \<Rightarrow>
             if is_Atomic dt then
               (case (if dt = Integer then map_sum id PyInt (py_int value)
                      else if dt = Real then py_float L value
                      else if dt = Unsigned then map_sum id PyInt (py_int value)
                      else Inr (PyStr value)) of
                  Inl e \<Rightarrow> Inl e
                | Inr v \<Rightarrow> construct L dt v)
             else if is_Array dt \<and> indx \<noteq> None then
               (if indx = Some 0 then construct L Integer (PyStr value)
                else if is_Atomic (subtype dt) then construct L (subtype dt) (PyStr value)
                else Inl TypeError)
             else Inl TypeError))"

text \<open>\<^verbatim>\<open>indx\<close> and \<^verbatim>\<open>priority\<close>, read from the sixth and seventh token.\<close>

definition wp_indx :: "string list \<Rightarrow> error + int option" where
  "wp_indx args =
     (if length args \<ge> 6 then
        (if args ! 5 \<noteq> ''-'' then map_sum id Some (py_int (args ! 5)) else Inr None)
      else Inr None)"

definition wp_priority :: "string list \<Rightarrow> error + int option" where
  "wp_priority args =
     (if length args \<ge> 7 then map_sum id Some (py_int (args ! 6)) else Inr None)"

definition build_wp_request ::
  "('o, 'a) bacnet_write \<Rightarrow> string list \<Rightarrow> int \<Rightarrow> 'g world
     \<Rightarrow> (error + 'a wp_request) \<times> 'g world" where
  "build_wp_request L args vendor_id w =
     (case take 4 args of
        [addr, obj_type_tok, obj_inst_tok, prop_id_tok] \<Rightarrow>
          (case (if isdigit obj_type_tok then map_sum id Num (py_int obj_type_tok)
                 else Inr (Name obj_type_tok)) of
             Inl e \<Rightarrow> (Inl e, w)
           | Inr obj_type \<Rightarrow>
           (case py_int obj_inst_tok of
              Inl e \<Rightarrow> (Inl e, w)
            | Inr obj_inst \<Rightarrow>
              if length args < 5 then (Inl IndexError, w)
              else
              (case wp_indx args of
                 Inl e \<Rightarrow> (Inl e, w)
               | Inr indx \<Rightarrow>
               (case wp_priority args of
                  Inl e \<Rightarrow> (Inl e, log_debug ''    - indx: %r'' w)
                | Inr priority \<Rightarrow>
                (case (if isdigit prop_id_tok then map_sum id Num (py_int prop_id_tok)
                       else Inr (Name prop_id_tok)) of
                   Inl e \<Rightarrow>
                     (Inl e, log_debug ''    - priority: %r'' (log_debug ''    - indx: %r'' w))
                 | Inr prop_id \<Rightarrow>
                   let w1 = log_debug ''    - datatype: %r''
                              (log_debug ''    - priority: %r''
                                (log_debug ''    - indx: %r'' w))
                   in
                   (case encodeable L (w_get_datatype L obj_type prop_id vendor_id) indx
                           (args ! 4) of
                      Inl e \<Rightarrow> (Inl e, w1)
                    | Inr v \<Rightarrow>
                      let w2 = log_debug ''    - encodeable value: %r %s'' w1 in
                      (case w_mk_Address L addr of
                         Inl e \<Rightarrow> (Inl e, w2)
                       | Inr dest \<Rightarrow>
                           let request = \<lparr>wq_pduDestination = dest,
                                          wq_objectIdentifier = (obj_type, obj_inst),
                                          wq_propertyIdentifier = prop_id,
                                          wq_propertyValue = Any L,
                                          wq_propertyArrayIndex = indx,
                                          wq_priority = priority\<rparr>
                           in
                           (case cast_in L v of
                              Inl e \<Rightarrow>
                                if e = WritePropertyCastError then
                                  (Inr request,
                                   log_debug ''    - request: %r''
                                     (log_error ''WriteProperty cast error: %r'' w2))
                                else (Inl e, w2)
                            | Inr a \<Rightarrow>
                                (Inr (request\<lparr>wq_propertyValue := a\<rparr>),
                                 log_debug ''    - request: %r'' w2)))))))))
      | _ \<Rightarrow> (Inl ValueError, w))"

section \<open>A simulated installation\<close>

text \<open>
  Concrete collaborators, used to run the functions above on explicit inputs. An
  encoded value is a pair of the class it was encoded with and the Python value;
  \<^verbatim>\<open>cast_out\<close> gives the value back when asked for that class and raises otherwise.
  The tables hold the names the examples need, with the numbers of the BACnet standard;
  property 1234 of the device is a proprietary array of vendor 5.
\<close>

fun sim_get_datatype :: "ident \<Rightarrow> ident \<Rightarrow> int \<Rightarrow> bac_type option" where
  "sim_get_datatype (Name obj_type) (Name prop_id) vendor_id =
     (if obj_type = ''analogInput'' \<and> prop_id = ''presentValue'' then Some Real
      else if obj_type = ''analogInput'' \<and> prop_id = ''units''
      then Some (OtherAtomic ''EngineeringUnits'')
      else if obj_type = ''schedule'' \<and> prop_id = ''presentValue''
      then Some (OtherAtomic ''AnyAtomic'')
      else if obj_type = ''device'' \<and> prop_id = ''objectList''
      then Some (ArrayOf (OtherAtomic ''ObjectIdentifier''))
      else None)"
| "sim_get_datatype (Name obj_type) (Num prop_id) vendor_id =
     (if obj_type = ''device'' \<and> prop_id = 1234 \<and> vendor_id = 5
      then Some (ArrayOf Unsigned)
      else None)"
| "sim_get_datatype _ _ _ = None"

definition sim_cast_out :: "bac_type \<times> pyval \<Rightarrow> bac_type \<Rightarrow> error + pyval" where
  "sim_cast_out a t = (if fst a = t then Inr (snd a) else Inl (OtherError ''invalid tag''))"

definition sim :: "('g \<Rightarrow> request \<Rightarrow> (bac_type \<times> pyval) iocb \<times> 'g) \<Rightarrow> (bac_type \<times> pyval, 'g) bacnet" where
  "sim io =
     \<lparr>started = True,
      get_object_class = (\<lambda>name. name \<in> set [''analogInput'', ''schedule'', ''device'']),
      get_datatype = sim_get_datatype,
      PropertyIdentifier_enumerations =
        [''all'', ''optional'', ''required'', ''presentValue'', ''units'', ''objectList''],
      RejectReason_enumerations = [(''other'', 0), (''unrecognizedService'', 9)],
      AbortReason_enumerations =
        [(''other'', 0), (''bufferOverflow'', 1), (''segmentationNotSupported'', 4)],
      mk_Address = Inr,
      cast_out = sim_cast_out,
      request_io = io\<rparr>"

text \<open>A stack that plays a script: each request is answered by the next IOCB of the
  list, whatever it asks.\<close>

fun scripted :: "'a iocb list \<Rightarrow> request \<Rightarrow> 'a iocb \<times> 'a iocb list" where
  "scripted [] req = (\<lparr>ioResponse = None, ioError = None\<rparr>, [])"
| "scripted (iocb # script) req = (iocb, script)"

definition response :: "'a apdu \<Rightarrow> 'a iocb" where
  "response apdu = \<lparr>ioResponse = Some apdu, ioError = None\<rparr>"

definition failed :: "failure \<Rightarrow> 'a iocb" where
  "failed apdu = \<lparr>ioResponse = None, ioError = Some apdu\<rparr>"

definition fresh :: "'g \<Rightarrow> 'g world" where
  "fresh g = \<lparr>gateway = g, sent = [], logged = []\<rparr>"

section \<open>Properties\<close>

subsection \<open>One pass through read\<close>

text \<open>What \<open>read_body\<close> does once the request is built and the stack has completed the
  IOCB: with a response, and with a failure whose reason is known.\<close>

lemma read_body_response:
  assumes "started E"
    and "build_rp_request E (py_split args) arr_index vendor_id (log_debug ''do_read %r'' w)
           = (Inr req, w1)"
    and "submit E (ReadPropertyRequest req) w1 = (iocb, w2)"
    and "ioResponse iocb = Some apdu"
  shows "read_body E w args arr_index vendor_id
           = Direct (read_ioResponse E vendor_id apdu (log_debug ''    - iocb: %r'' w2))"
  using assms by (simp add: read_body_def)

lemma read_body_failure:
  assumes "started E"
    and "build_rp_request E (py_split args) arr_index vendor_id (log_debug ''do_read %r'' w)
           = (Inr req, w1)"
    and "submit E (ReadPropertyRequest req) w1 = (iocb, w2)"
    and "ioResponse iocb = None"
    and "ioError iocb = Some err"
    and "find_reason E err = Inr reason"
  shows "read_body E w args arr_index vendor_id =
           (if reason = PyStr ''segmentationNotSupported'' then
              PerIndex
                (log_debug ''The Request was : %s''
                  (log_debug ''Segmentation not supported... will read properties one by one...''
                    (log_debug ''    - iocb: %r'' w2)))
            else if reason = PyStr ''unknownProperty'' then
              Direct (Inl NoResponseFromController,
                      log_warning ''Unknown property %s'' (log_debug ''    - iocb: %r'' w2))
            else Direct (Inl NoResponseFromController, log_debug ''    - iocb: %r'' w2))"
  using assms by (simp add: read_body_def)

subsection \<open>find_reason\<close>

lemma find_reason_named:
  "(name, code) \<in> set reasons \<Longrightarrow> \<exists>k. reason_of_code reasons code = PyStr k \<and> (k, code) \<in> set reasons"
proof -
  assume "(name, code) \<in> set reasons"
  then have "(name, code) \<in> set (filter (\<lambda>kv. snd kv = code) reasons)" by simp
  then obtain kv rest where f: "filter (\<lambda>kv. snd kv = code) reasons = kv # rest"
    by (cases "filter (\<lambda>kv. snd kv = code) reasons") auto
  then have "kv \<in> set (filter (\<lambda>kv. snd kv = code) reasons)" by simp
  then have "kv \<in> set reasons" "snd kv = code" by auto
  then have "(fst kv, code) \<in> set reasons" by (cases kv) auto
  with f show ?thesis by (auto simp: reason_of_code_def)
qed

lemma find_reason_unnamed:
  "code \<notin> snd ` set reasons \<Longrightarrow> reason_of_code reasons code = PyInt code"
proof -
  assume "code \<notin> snd ` set reasons"
  then have "filter (\<lambda>kv. snd kv = code) reasons = []"
    by (auto simp: filter_empty_conv)
  then show ?thesis by (simp add: reason_of_code_def)
qed

text \<open>
  C9 (the code departs from the claim). For a reject or an abort \<^verbatim>\<open>find_reason\<close> returns
  the name of the code, or the code itself when it has no name, as the claim says. For
  an application error that does not expose both an error class and an error code the
  claim says the reason \<^verbatim>\<open>UnknownError\<close> is returned; the code raises NameError, since
  the branch calls \<^verbatim>\<open>self.log_warning\<close> in a function that has no \<^verbatim>\<open>self\<close>.
\<close>

theorem find_reason_error_without_code_raises:
  "find_reason E (Error None errorClass) = Inl NameError
   \<and> find_reason E (Error errorCode None) = Inl NameError
   \<and> find_reason E (RejectPDU code) = Inr (reason_of_code (RejectReason_enumerations E) code)
   \<and> find_reason E (AbortPDU code) = Inr (reason_of_code (AbortReason_enumerations E) code)"
  by (simp add: find_reason_def)

subsection \<open>read: a failure with the reason unknownProperty\<close>

text \<open>
  C8 (as stated, refuted). The claim: a single read whose failure classifies as
  unknownProperty only logs a warning and still returns a value. In the simulated
  installation, a device that answers the read of \<^verbatim>\<open>2:5 analogInput 1 presentValue\<close>
  with the error unknownProperty makes \<^verbatim>\<open>read\<close> raise NoResponseFromController.
\<close>

theorem read_unknownProperty_counterexample:
  "map_option fst
     (read (sim scripted) 1
        (fresh [failed (Error (Some (EnumName ''unknownProperty'')) (Some (EnumName ''property'')))])
        ''2:5 analogInput 1 presentValue'' None 0)
   = Some (Inl NoResponseFromController)"
  by code_simp

text \<open>
  C8 (amended). For every single read whose failure response classifies as
  unknownProperty, \<^verbatim>\<open>read\<close> logs the warning "Unknown property" and then raises
  NoResponseFromController; no value is returned.
\<close>

theorem read_unknownProperty_raises:
  assumes "started E"
    and "build_rp_request E (py_split args) arr_index vendor_id (log_debug ''do_read %r'' w)
           = (Inr req, w1)"
    and "submit E (ReadPropertyRequest req) w1 = (iocb, w2)"
    and "ioResponse iocb = None"
    and "ioError iocb = Some err"
    and "find_reason E err = Inr (PyStr ''unknownProperty'')"
  shows "read E (Suc n) w args arr_index vendor_id
           = Some (Inl NoResponseFromController,
                   log_warning ''Unknown property %s'' (log_debug ''    - iocb: %r'' w2))"
  using read_body_failure [OF assms] by simp

theorem read_unknownProperty_raises_witness:
  "read (sim scripted) (Suc 0)
     (fresh [failed (Error (Some (EnumName ''unknownProperty'')) (Some (EnumName ''property'')))])
     ''2:5 analogInput 1 presentValue'' None 0
   = Some (Inl NoResponseFromController,
           \<lparr>gateway = [],
            sent = [ReadPropertyRequest
                      \<lparr>rq_pduDestination = ''2:5'',
                       rq_objectIdentifier = (Name ''analogInput'', 1),
                       rq_propertyIdentifier = Name ''presentValue'',
                       rq_propertyArrayIndex = None\<rparr>],
            logged = [(DEBUG, ''do_read %r''), (DEBUG, ''- request: %r''),
                      (DEBUG, ''    - iocb: %r''), (WARNING, ''Unknown property %s'')]\<rparr>)"
proof -
  let ?E = "sim scripted :: (bac_type \<times> pyval, (bac_type \<times> pyval) iocb list) bacnet"
  let ?err = "Error (Some (EnumName ''unknownProperty'')) (Some (EnumName ''property''))"
  let ?req = "\<lparr>rq_pduDestination = ''2:5'', rq_objectIdentifier = (Name ''analogInput'', 1),
               rq_propertyIdentifier = Name ''presentValue'', rq_propertyArrayIndex = None\<rparr>"
  let ?w1 = "\<lparr>gateway = [failed ?err], sent = [],
              logged = [(DEBUG, ''do_read %r''), (DEBUG, ''- request: %r'')]\<rparr>"
  let ?w2 = "\<lparr>gateway = [], sent = [ReadPropertyRequest ?req],
              logged = [(DEBUG, ''do_read %r''), (DEBUG, ''- request: %r'')]\<rparr>"
  have 1: "started ?E" by (simp add: sim_def)
  have 2: "build_rp_request ?E (py_split ''2:5 analogInput 1 presentValue'') None 0
             (log_debug ''do_read %r'' (fresh [failed ?err])) = (Inr ?req, ?w1)"
    by code_simp
  have 3: "submit ?E (ReadPropertyRequest ?req) ?w1 = (failed ?err, ?w2)"
    by code_simp
  have 4: "ioResponse (failed ?err :: (bac_type \<times> pyval) iocb) = None"
    by (simp add: failed_def)
  have 5: "ioError (failed ?err :: (bac_type \<times> pyval) iocb) = Some ?err"
    by (simp add: failed_def)
  have 6: "find_reason ?E ?err = Inr (PyStr ''unknownProperty'')"
    by code_simp
  show ?thesis
    using read_unknownProperty_raises [OF 1 2 3 4 5 6, of 0]
    by (simp add: log_warning_def log_debug_def)
qed

subsection \<open>read: decoding a response\<close>

text \<open>
  What \<^verbatim>\<open>read\<close> returns for a ReadPropertyACK whose datatype resolves. The code tests
  \<^verbatim>\<open>apdu.propertyArrayIndex\<close>, the index that the acknowledgment carries: for an array
  datatype and an index in the acknowledgment, index 0 is cast out as Unsigned whatever
  the element type is and any other index as the element type of the array; with a
  datatype that is no array, or with no index, the value is cast out as the resolved
  datatype.
\<close>

lemma read_decodes_by_ack_index:
  assumes "started E"
    and "build_rp_request E (py_split args) arr_index vendor_id (log_debug ''do_read %r'' w)
           = (Inr req, w1)"
    and "submit E (ReadPropertyRequest req) w1 = (iocb, w2)"
    and "ioResponse iocb = Some (ReadPropertyACK ack)"
    and "get_datatype E (fst (ack_objectIdentifier ack)) (ack_propertyIdentifier ack) vendor_id
           = Some datatype"
  shows "map_option fst (read E (Suc n) w args arr_index vendor_id) =
           Some (case datatype of
                   ArrayOf element_type \<Rightarrow>
                     (case ack_propertyArrayIndex ack of
                        None \<Rightarrow> cast_out E (ack_propertyValue ack) datatype
                      | Some i \<Rightarrow>
                          if i = 0 then cast_out E (ack_propertyValue ack) Unsigned
                          else cast_out E (ack_propertyValue ack) element_type)
                 | _ \<Rightarrow> cast_out E (ack_propertyValue ack) datatype)"
proof -
  have "read E (Suc n) w args arr_index vendor_id
          = Some (read_ioResponse E vendor_id (ReadPropertyACK ack)
                    (log_debug ''    - iocb: %r'' w2))"
    using read_body_response [OF assms(1-4)] by simp
  moreover have "fst (read_ioResponse E vendor_id (ReadPropertyACK ack) w')
          = cast_out_array_part E datatype (ack_propertyArrayIndex ack) (ack_propertyValue ack)"
    for w'
    using assms(5) by (simp add: read_ioResponse_def split: sum.splits)
  ultimately show ?thesis
    by (cases "datatype"; cases "ack_propertyArrayIndex ack")
       (simp_all add: cast_out_array_part_def)
qed

text \<open>The index that a request asks for: the fifth token of the command when it has
  five tokens, the parameter \<^verbatim>\<open>arr_index\<close> otherwise.\<close>

lemma build_rp_request_index:
  assumes "build_rp_request E args arr_index vendor_id w = (Inr req, w1)"
  shows "if length args = 5
         then (\<exists>indx. py_int (args ! 4) = Inr indx \<and> rq_propertyArrayIndex req = Some indx)
         else rq_propertyArrayIndex req = arr_index"
  using assms
  by (auto simp: build_rp_request_def Let_def
           split: list.splits sum.splits option.splits if_splits)

text \<open>
  C3 (as stated, refuted). The claim speaks of the array index that was requested;
  the code decides by the index of the acknowledgment, and nothing compares the two.
  In the first run index 0 is requested and the device acknowledges the whole array
  without an index: the value is cast out as the plain array datatype, not as
  Unsigned. In the second run no index is requested and the acknowledgment carries
  index 0: the value is cast out as Unsigned, not as the plain datatype.
\<close>

theorem read_decodes_by_requested_index_counterexample:
  "map_option (\<lambda>(r, w). (r, sent w))
     (read (sim scripted) 1
        (fresh [response (ReadPropertyACK
                  \<lparr>ack_objectIdentifier = (Name ''device'', 5),
                   ack_propertyIdentifier = Name ''objectList'',
                   ack_propertyArrayIndex = None,
                   ack_propertyValue =
                     (ArrayOf (OtherAtomic ''ObjectIdentifier''), PyList [PyInt 1, PyInt 2])\<rparr>)])
        ''2:5 device 5 objectList'' (Some 0) 0)
     = Some (Inr (PyList [PyInt 1, PyInt 2]),
             [ReadPropertyRequest
                \<lparr>rq_pduDestination = ''2:5'', rq_objectIdentifier = (Name ''device'', 5),
                 rq_propertyIdentifier = Name ''objectList'',
                 rq_propertyArrayIndex = Some 0\<rparr>])
   \<and> map_option (\<lambda>(r, w). (r, sent w))
       (read (sim scripted) 1
          (fresh [response (ReadPropertyACK
                    \<lparr>ack_objectIdentifier = (Name ''device'', 5),
                     ack_propertyIdentifier = Name ''objectList'',
                     ack_propertyArrayIndex = Some 0,
                     ack_propertyValue = (Unsigned, PyInt 2)\<rparr>)])
          ''2:5 device 5 objectList'' None 0)
     = Some (Inr (PyInt 2),
             [ReadPropertyRequest
                \<lparr>rq_pduDestination = ''2:5'', rq_objectIdentifier = (Name ''device'', 5),
                 rq_propertyIdentifier = Name ''objectList'',
                 rq_propertyArrayIndex = None\<rparr>])"
  by code_simp

text \<open>
  C3 (amended). For every read success response whose acknowledgment carries the array
  index that the request asked for, and whose datatype resolves: if the datatype is an
  array type and an explicit array index was requested, \<^verbatim>\<open>read\<close> decodes index 0 as an
  unsigned integer regardless of the element type of the array and any other index
  using the element type; in all other cases (no array datatype, or no index requested)
  it decodes using the plain resolved datatype. The index requested is that of the
  request sent: the fifth token of the command when it has five tokens, the parameter
  \<^verbatim>\<open>arr_index\<close> otherwise.
\<close>

theorem read_decodes_by_requested_index:
  assumes "started E"
    and "build_rp_request E (py_split args) arr_index vendor_id (log_debug ''do_read %r'' w)
           = (Inr req, w1)"
    and "submit E (ReadPropertyRequest req) w1 = (iocb, w2)"
    and "ioResponse iocb = Some (ReadPropertyACK ack)"
    and "get_datatype E (fst (ack_objectIdentifier ack)) (ack_propertyIdentifier ack) vendor_id
           = Some datatype"
    and "ack_propertyArrayIndex ack = rq_propertyArrayIndex req"
  shows "map_option fst (read E (Suc n) w args arr_index vendor_id) =
           Some (case datatype of
                   ArrayOf element_type \<Rightarrow>
                     (case rq_propertyArrayIndex req of
                        None \<Rightarrow> cast_out E (ack_propertyValue ack) datatype
                      | Some i \<Rightarrow>
                          if i = 0 then cast_out E (ack_propertyValue ack) Unsigned
                          else cast_out E (ack_propertyValue ack) element_type)
                 | _ \<Rightarrow> cast_out E (ack_propertyValue ack) datatype)
       \<and> (if length (py_split args) = 5
          then (\<exists>indx. py_int (py_split args ! 4) = Inr indx
                       \<and> rq_propertyArrayIndex req = Some indx)
          else rq_propertyArrayIndex req = arr_index)"
proof
  show "map_option fst (read E (Suc n) w args arr_index vendor_id) =
           Some (case datatype of
                   ArrayOf element_type \<Rightarrow>
                     (case rq_propertyArrayIndex req of
                        None \<Rightarrow> cast_out E (ack_propertyValue ack) datatype
                      | Some i \<Rightarrow>
                          if i = 0 then cast_out E (ack_propertyValue ack) Unsigned
                          else cast_out E (ack_propertyValue ack) element_type)
                 | _ \<Rightarrow> cast_out E (ack_propertyValue ack) datatype)"
    using read_decodes_by_ack_index [OF assms(1-5), of n] unfolding assms(6) .
  show "if length (py_split args) = 5
        then (\<exists>indx. py_int (py_split args ! 4) = Inr indx
                     \<and> rq_propertyArrayIndex req = Some indx)
        else rq_propertyArrayIndex req = arr_index"
    by (rule build_rp_request_index [OF assms(2)])
qed

theorem read_decodes_by_requested_index_witness:
  "map_option fst
     (read (sim scripted) (Suc 0)
        (fresh [response (ReadPropertyACK
                  \<lparr>ack_objectIdentifier = (Name ''device'', 5),
                   ack_propertyIdentifier = Name ''objectList'',
                   ack_propertyArrayIndex = Some 0,
                   ack_propertyValue = (Unsigned, PyInt 3)\<rparr>)])
        ''2:5 device 5 objectList 0'' None 0)
     = Some (Inr (PyInt 3))
   \<and> py_int (py_split ''2:5 device 5 objectList 0'' ! 4) = Inr 0"
proof -
  let ?E = "sim scripted :: (bac_type \<times> pyval, (bac_type \<times> pyval) iocb list) bacnet"
  let ?ack = "\<lparr>ack_objectIdentifier = (Name ''device'', 5),
               ack_propertyIdentifier = Name ''objectList'',
               ack_propertyArrayIndex = Some 0,
               ack_propertyValue = (Unsigned, PyInt 3)\<rparr>"
  let ?req = "\<lparr>rq_pduDestination = ''2:5'', rq_objectIdentifier = (Name ''device'', 5),
               rq_propertyIdentifier = Name ''objectList'', rq_propertyArrayIndex = Some 0\<rparr>"
  let ?w1 = "\<lparr>gateway = [response (ReadPropertyACK ?ack)], sent = [],
              logged = [(DEBUG, ''do_read %r''), (DEBUG, ''- request: %r'')]\<rparr>"
  let ?w2 = "\<lparr>gateway = [], sent = [ReadPropertyRequest ?req],
              logged = [(DEBUG, ''do_read %r''), (DEBUG, ''- request: %r'')]\<rparr>"
  have 1: "started ?E" by (simp add: sim_def)
  have 2: "build_rp_request ?E (py_split ''2:5 device 5 objectList 0'') None 0
             (log_debug ''do_read %r'' (fresh [response (ReadPropertyACK ?ack)]))
           = (Inr ?req, ?w1)"
    by code_simp
  have 3: "submit ?E (ReadPropertyRequest ?req) ?w1 = (response (ReadPropertyACK ?ack), ?w2)"
    by code_simp
  have 4: "ioResponse (response (ReadPropertyACK ?ack)) = Some (ReadPropertyACK ?ack)"
    by (simp add: response_def)
  have 5: "get_datatype ?E (fst (ack_objectIdentifier ?ack)) (ack_propertyIdentifier ?ack) 0
           = Some (ArrayOf (OtherAtomic ''ObjectIdentifier''))"
    by code_simp
  have 6: "ack_propertyArrayIndex ?ack = rq_propertyArrayIndex ?req"
    by simp
  have tok: "py_int (py_split ''2:5 device 5 objectList 0'' ! 4) = Inr 0"
    by code_simp
  from read_decodes_by_requested_index [OF 1 2 3 4 5 6, of 0]
  have "map_option fst
          (read ?E (Suc 0) (fresh [response (ReadPropertyACK ?ack)])
             ''2:5 device 5 objectList 0'' None 0)
        = Some (Inr (PyInt 3))"
    by (simp add: sim_def sim_cast_out_def)
  with tok show ?thesis by simp
qed

subsection \<open>readMultiple: what is returned for an acknowledgment\<close>

lemma readMultiple_submitted:
  assumes "started E"
    and "build_rpm_request E (py_split args) (log_debug ''readMultiple %r'' w) = (Inr req, w1)"
    and "submit E (ReadPropertyMultipleRequest req) w1 = (iocb, w2)"
  shows "readMultiple E w args =
           (case ioResponse iocb of
              None \<Rightarrow> readMultiple_ioError E iocb [] w2
            | Some (ReadPropertyMultipleACK listOfReadAccessResults) \<Rightarrow>
                (case rpm_results E listOfReadAccessResults [] w2 of
                   (Some r, values, w3) \<Rightarrow> (r, w3)
                 | (None, values, w3) \<Rightarrow> readMultiple_ioError E iocb values w3)
            | Some _ \<Rightarrow>
                (Inr PyNone, log_warning ''APDU : %s / %s'' (log_warning ''- not an ack'' w2)))"
  using assms by (simp add: readMultiple_def)

text \<open>The inner loop leaves \<^verbatim>\<open>values\<close> as it was unless it returns, and when it returns,
  the list holds exactly one value more.\<close>

lemma rpm_elements_values:
  "rpm_elements E oid elements vals w = (r, vals', w') \<Longrightarrow>
     (case r of
        None \<Rightarrow> vals' = vals
      | Some (Inl e) \<Rightarrow> vals' = vals
      | Some (Inr x) \<Rightarrow> (\<exists>v. vals' = vals @ [v] \<and> x = PyList vals'))"
proof (induction elements arbitrary: w)
  case Nil
  then show ?case by auto
next
  case (Cons element rest)
  show ?case
  proof (cases "el_readResult element")
    case (PropertyValue propertyValue)
    with Cons.prems show ?thesis
      by (auto simp: Let_def split: option.splits sum.splits)
  next
    case (PropertyAccessError errorClass errorCode)
    with Cons.prems Cons.IH show ?thesis
      by (simp add: Let_def)
  qed
qed

lemma rpm_results_values:
  "rpm_results E results vals w = (r, vals', w') \<Longrightarrow>
     (case r of
        None \<Rightarrow> vals' = vals
      | Some (Inl e) \<Rightarrow> vals' = vals
      | Some (Inr x) \<Rightarrow> (\<exists>v. vals' = vals @ [v] \<and> x = PyList vals'))"
proof (induction results arbitrary: vals w)
  case Nil
  then show ?case by auto
next
  case (Cons result rest)
  obtain r1 vals1 w1 where
    step: "rpm_elements E (rar_objectIdentifier result) (rar_listOfResults result) vals
             (log_debug ''- objectIdentifier: %r'' w) = (r1, vals1, w1)"
    by (metis prod_cases3)
  show ?case
  proof (cases r1)
    case None
    with rpm_elements_values [OF step] have "vals1 = vals" by simp
    with Cons.prems step None have "rpm_results E rest vals w1 = (r, vals', w')"
      by simp
    then show ?thesis by (rule Cons.IH)
  next
    case (Some x)
    with Cons.prems step have eq: "r = r1" "vals' = vals1" by simp_all
    show ?thesis unfolding eq by (rule rpm_elements_values [OF step])
  qed
qed

text \<open>
  The spec's account of the values of an acknowledgment: the decoded value of every
  property of every result group, groups in the order of the response and properties in
  the order of their group, one entry for each property that decodes.
\<close>

definition spec_decoded_values ::
  "('a, 'g) bacnet \<Rightarrow> 'a read_access_result list \<Rightarrow> pyval list" where
  "spec_decoded_values E listOfReadAccessResults =
     concat (map (\<lambda>result.
       concat (map (\<lambda>element.
         (case el_readResult element of
            PropertyAccessError errorClass errorCode \<Rightarrow> []
          | PropertyValue v \<Rightarrow>
              (case get_datatype E (fst (rar_objectIdentifier result))
                      (el_propertyIdentifier element) 0 of
                 None \<Rightarrow> []
               | Some dt \<Rightarrow>
                   (case cast_out_array_part E dt (el_propertyArrayIndex element) v of
                      Inl e \<Rightarrow> []
                    | Inr x \<Rightarrow> [x]))))
         (rar_listOfResults result)))
       listOfReadAccessResults)"

text \<open>
  C1 (the code departs from the claim). The claim: \<^verbatim>\<open>readMultiple\<close> returns the decoded
  values of every property of every object group. The \<^verbatim>\<open>return values\<close> of line 255
  stands inside the inner loop, so the call ends with the first value it decodes. For
  \<^verbatim>\<open>2:5 analogInput 1 presentValue units\<close> and a device that acknowledges with both
  values, the list returned holds the present value only.
\<close>

theorem readMultiple_returns_after_first_value:
  "fst (readMultiple (sim scripted)
          (fresh [response (ReadPropertyMultipleACK
             [\<lparr>rar_objectIdentifier = (Name ''analogInput'', 1),
               rar_listOfResults =
                 [\<lparr>el_propertyIdentifier = Name ''presentValue'',
                   el_propertyArrayIndex = None,
                   el_readResult = PropertyValue (Real, PyObject ''72.5'')\<rparr>,
                  \<lparr>el_propertyIdentifier = Name ''units'',
                   el_propertyArrayIndex = None,
                   el_readResult =
                     PropertyValue (OtherAtomic ''EngineeringUnits'', PyStr ''degreesCelsius'')\<rparr>]\<rparr>])])
          ''2:5 analogInput 1 presentValue units'')
     = Inr (PyList [PyObject ''72.5''])
   \<and> spec_decoded_values (sim scripted)
         [\<lparr>rar_objectIdentifier = (Name ''analogInput'', 1),
           rar_listOfResults =
             [\<lparr>el_propertyIdentifier = Name ''presentValue'',
               el_propertyArrayIndex = None,
               el_readResult = PropertyValue (Real, PyObject ''72.5'')\<rparr>,
              \<lparr>el_propertyIdentifier = Name ''units'',
               el_propertyArrayIndex = None,
               el_readResult =
                 PropertyValue (OtherAtomic ''EngineeringUnits'', PyStr ''degreesCelsius'')\<rparr>]\<rparr>]
     = [PyObject ''72.5'', PyStr ''degreesCelsius'']"
  by code_simp

text \<open>Whatever the acknowledgment holds, a list that \<^verbatim>\<open>readMultiple\<close> returns for it has
  one entry; with no value decoded the call returns \<^verbatim>\<open>None\<close>.\<close>

lemma readMultiple_ack_one_value:
  assumes "started E"
    and "build_rpm_request E (py_split args) (log_debug ''readMultiple %r'' w) = (Inr req, w1)"
    and "submit E (ReadPropertyMultipleRequest req) w1 = (iocb, w2)"
    and "ioResponse iocb = Some (ReadPropertyMultipleACK listOfReadAccessResults)"
    and "ioError iocb = None"
    and "fst (readMultiple E w args) = Inr x"
  shows "x = PyNone \<or> (\<exists>v. x = PyList [v])"
proof -
  obtain r vals w3 where
    res: "rpm_results E listOfReadAccessResults [] w2 = (r, vals, w3)"
    by (metis prod_cases3)
  show ?thesis
  proof (cases r)
    case None
    with res assms show ?thesis
      by (simp add: readMultiple_submitted [OF assms(1-3)] readMultiple_ioError_def)
  next
    case (Some y)
    with res assms(4,6) have "y = Inr x"
      by (simp add: readMultiple_submitted [OF assms(1-3)])
    with rpm_results_values [OF res] Some show ?thesis by auto
  qed
qed

subsection \<open>readMultiple: a property with an access error\<close>

text \<open>
  C4 (as stated, refuted). The claim: a property with an access error is logged, its
  slot is recorded as absent in the result, and the next property is processed. For
  \<^verbatim>\<open>2:5 analogInput 1 units presentValue\<close> and a device that reports an access error for
  the units and the value 72.5 for the present value, the result is a list of one
  entry, the present value: nothing in it stands for the units.
\<close>

theorem readMultiple_access_error_counterexample:
  "fst (readMultiple (sim scripted)
          (fresh [response (ReadPropertyMultipleACK
             [\<lparr>rar_objectIdentifier = (Name ''analogInput'', 1),
               rar_listOfResults =
                 [\<lparr>el_propertyIdentifier = Name ''units'',
                   el_propertyArrayIndex = None,
                   el_readResult = PropertyAccessError ''property'' ''unknownProperty''\<rparr>,
                  \<lparr>el_propertyIdentifier = Name ''presentValue'',
                   el_propertyArrayIndex = None,
                   el_readResult = PropertyValue (Real, PyObject ''72.5'')\<rparr>]\<rparr>])])
          ''2:5 analogInput 1 units presentValue'')
     = Inr (PyList [PyObject ''72.5''])"
  by code_simp

text \<open>
  C4 (amended). When the loop of \<^verbatim>\<open>readMultiple\<close> comes to a property that carries an
  access error, it does not raise: it logs the error at error level, adds nothing to
  the list of values (no entry marks the property as absent), and goes on with the
  next property of the same group.
\<close>

theorem rpm_elements_access_error:
  "\<exists>w'. rpm_elements E objectIdentifier
           (\<lparr>el_propertyIdentifier = propertyIdentifier,
             el_propertyArrayIndex = propertyArrayIndex,
             el_readResult = PropertyAccessError errorClass errorCode\<rparr> # rest) values w
         = rpm_elements E objectIdentifier rest values w'
       \<and> gateway w' = gateway w \<and> sent w' = sent w
       \<and> logged w' =
           logged w @ [(DEBUG, ''- propertyIdentifier: %r''), (DEBUG, ''- propertyArrayIndex: %r'')]
             @ (case propertyArrayIndex of
                  None \<Rightarrow> []
                | Some i \<Rightarrow> [(ERROR, ''['' @ str_int i @ '']'')])
             @ [(ERROR, '' ! '')]"
proof -
  let ?w1 = "log_debug ''- propertyArrayIndex: %r'' (log_debug ''- propertyIdentifier: %r'' w)"
  let ?w2 = "case propertyArrayIndex of
               None \<Rightarrow> ?w1
             | Some i \<Rightarrow> log_error (''['' @ str_int i @ '']'') ?w1"
  show ?thesis
    by (rule exI [of _ "log_error '' ! '' ?w2"])
       (cases propertyArrayIndex; simp add: Let_def log_debug_def log_error_def)
qed

subsection \<open>A response that is not the expected acknowledgment\<close>

text \<open>
  C10 (as stated, refuted). The claim: for a response that is not the expected
  acknowledgment the call logs and returns \<^verbatim>\<open>None\<close>, so a caller cannot tell the outcome
  from a decoded null value. The calls return \<^verbatim>\<open>None\<close> for a SimpleAckPDU, but a decoded
  value is returned as \<^verbatim>\<open>cast_out\<close> gives it, and inside a list by \<^verbatim>\<open>readMultiple\<close>. For an
  acknowledgment that holds a null, which comes out of \<^verbatim>\<open>cast_out\<close> as a Null object,
  \<^verbatim>\<open>read\<close> returns that object and \<^verbatim>\<open>readMultiple\<close> the list of it: neither is \<^verbatim>\<open>None\<close>.
\<close>

theorem unexpected_response_counterexample:
  "map_option fst
     (read (sim scripted) 1 (fresh [response SimpleAckPDU])
        ''2:5 schedule 1 presentValue'' None 0)
     = Some (Inr PyNone)
   \<and> map_option fst
       (read (sim scripted) 1
          (fresh [response (ReadPropertyACK
                    \<lparr>ack_objectIdentifier = (Name ''schedule'', 1),
                     ack_propertyIdentifier = Name ''presentValue'',
                     ack_propertyArrayIndex = None,
                     ack_propertyValue = (OtherAtomic ''AnyAtomic'', PyObject ''Null'')\<rparr>)])
          ''2:5 schedule 1 presentValue'' None 0)
     = Some (Inr (PyObject ''Null''))
   \<and> fst (readMultiple (sim scripted) (fresh [response SimpleAckPDU])
            ''2:5 schedule 1 presentValue'')
     = Inr PyNone
   \<and> fst (readMultiple (sim scripted)
            (fresh [response (ReadPropertyMultipleACK
               [\<lparr>rar_objectIdentifier = (Name ''schedule'', 1),
                 rar_listOfResults =
                   [\<lparr>el_propertyIdentifier = Name ''presentValue'',
                     el_propertyArrayIndex = None,
                     el_readResult =
                       PropertyValue (OtherAtomic ''AnyAtomic'', PyObject ''Null'')\<rparr>]\<rparr>])])
            ''2:5 schedule 1 presentValue'')
     = Inr (PyList [PyObject ''Null''])"
  by code_simp

text \<open>
  C10 (amended). For a success response that is not the expected acknowledgment (no
  ReadPropertyACK for \<^verbatim>\<open>read\<close>, no ReadPropertyMultipleACK for \<^verbatim>\<open>readMultiple\<close>) the call
  logs the mismatch and returns \<^verbatim>\<open>None\<close>: no decoded value and no raised error.
\<close>

theorem unexpected_response_returns_None:
  "(started E
      \<and> build_rp_request E (py_split args) arr_index vendor_id (log_debug ''do_read %r'' w)
          = (Inr req, w1)
      \<and> submit E (ReadPropertyRequest req) w1 = (iocb, w2)
      \<and> ioResponse iocb = Some apdu
      \<and> (\<forall>ack. apdu \<noteq> ReadPropertyACK ack)
    \<longrightarrow> read E (Suc n) w args arr_index vendor_id
          = Some (Inr PyNone,
                  log_warning ''APDU : %s / %s''
                    (log_debug ''    - not an ack'' (log_debug ''    - iocb: %r'' w2))))
   \<and> (started E
      \<and> build_rpm_request E (py_split margs) (log_debug ''readMultiple %r'' mw) = (Inr mreq, mw1)
      \<and> submit E (ReadPropertyMultipleRequest mreq) mw1 = (miocb, mw2)
      \<and> ioResponse miocb = Some mapdu
      \<and> (\<forall>results. mapdu \<noteq> ReadPropertyMultipleACK results)
    \<longrightarrow> readMultiple E mw margs
          = (Inr PyNone, log_warning ''APDU : %s / %s'' (log_warning ''- not an ack'' mw2)))"
proof (intro conjI impI)
  assume a: "started E
      \<and> build_rp_request E (py_split args) arr_index vendor_id (log_debug ''do_read %r'' w)
          = (Inr req, w1)
      \<and> submit E (ReadPropertyRequest req) w1 = (iocb, w2)
      \<and> ioResponse iocb = Some apdu
      \<and> (\<forall>ack. apdu \<noteq> ReadPropertyACK ack)"
  then have "read_body E w args arr_index vendor_id
               = Direct (read_ioResponse E vendor_id apdu (log_debug ''    - iocb: %r'' w2))"
    using read_body_response [of E args arr_index vendor_id w req w1 iocb w2 apdu] by simp
  moreover from a have "read_ioResponse E vendor_id apdu w0
        = (Inr PyNone, log_warning ''APDU : %s / %s'' (log_debug ''    - not an ack'' w0))" for w0
    by (cases apdu) (simp_all add: read_ioResponse_def)
  ultimately show "read E (Suc n) w args arr_index vendor_id
          = Some (Inr PyNone,
                  log_warning ''APDU : %s / %s''
                    (log_debug ''    - not an ack'' (log_debug ''    - iocb: %r'' w2)))"
    by simp
next
  assume a: "started E
      \<and> build_rpm_request E (py_split margs) (log_debug ''readMultiple %r'' mw) = (Inr mreq, mw1)
      \<and> submit E (ReadPropertyMultipleRequest mreq) mw1 = (miocb, mw2)
      \<and> ioResponse miocb = Some mapdu
      \<and> (\<forall>results. mapdu \<noteq> ReadPropertyMultipleACK results)"
  then have "readMultiple E mw margs =
           (case ioResponse miocb of
              None \<Rightarrow> readMultiple_ioError E miocb [] mw2
            | Some (ReadPropertyMultipleACK listOfReadAccessResults) \<Rightarrow>
                (case rpm_results E listOfReadAccessResults [] mw2 of
                   (Some r, values, w3) \<Rightarrow> (r, w3)
                 | (None, values, w3) \<Rightarrow> readMultiple_ioError E miocb values w3)
            | Some _ \<Rightarrow>
                (Inr PyNone, log_warning ''APDU : %s / %s'' (log_warning ''- not an ack'' mw2)))"
    using readMultiple_submitted [of E margs mw mreq mw1 miocb mw2] by simp
  with a show "readMultiple E mw margs
          = (Inr PyNone, log_warning ''APDU : %s / %s'' (log_warning ''- not an ack'' mw2))"
    by (cases mapdu) simp_all
qed

theorem unexpected_response_returns_None_witness:
  "read (sim scripted) (Suc 0) (fresh [response SimpleAckPDU])
     ''2:5 analogInput 1 presentValue'' None 0
     = Some (Inr PyNone,
             \<lparr>gateway = [],
              sent = [ReadPropertyRequest
                        \<lparr>rq_pduDestination = ''2:5'',
                         rq_objectIdentifier = (Name ''analogInput'', 1),
                         rq_propertyIdentifier = Name ''presentValue'',
                         rq_propertyArrayIndex = None\<rparr>],
              logged = [(DEBUG, ''do_read %r''), (DEBUG, ''- request: %r''),
                        (DEBUG, ''    - iocb: %r''), (DEBUG, ''    - not an ack''),
                        (WARNING, ''APDU : %s / %s'')]\<rparr>)
   \<and> readMultiple (sim scripted) (fresh [response SimpleAckPDU])
       ''2:5 analogInput 1 presentValue units''
     = (Inr PyNone,
        \<lparr>gateway = [],
         sent = [ReadPropertyMultipleRequest
                   \<lparr>rpm_pduDestination = ''2:5'',
                    rpm_listOfReadAccessSpecs =
                      [\<lparr>ras_objectIdentifier = (Name ''analogInput'', 1),
                        ras_listOfPropertyReferences =
                          [\<lparr>pr_propertyIdentifier = ''presentValue'',
                            pr_propertyArrayIndex = None\<rparr>,
                           \<lparr>pr_propertyIdentifier = ''units'',
                            pr_propertyArrayIndex = None\<rparr>]\<rparr>]\<rparr>],
         logged = [(DEBUG, ''readMultiple %r''), (DEBUG, ''    - request: %r''),
                   (WARNING, ''- not an ack''), (WARNING, ''APDU : %s / %s'')]\<rparr>)"
proof -
  let ?E = "sim scripted :: (bac_type \<times> pyval, (bac_type \<times> pyval) iocb list) bacnet"
  let ?done = "response SimpleAckPDU :: (bac_type \<times> pyval) iocb"
  let ?req = "\<lparr>rq_pduDestination = ''2:5'', rq_objectIdentifier = (Name ''analogInput'', 1),
               rq_propertyIdentifier = Name ''presentValue'', rq_propertyArrayIndex = None\<rparr>"
  let ?w1 = "\<lparr>gateway = [?done], sent = [],
              logged = [(DEBUG, ''do_read %r''), (DEBUG, ''- request: %r'')]\<rparr>"
  let ?w2 = "\<lparr>gateway = [], sent = [ReadPropertyRequest ?req],
              logged = [(DEBUG, ''do_read %r''), (DEBUG, ''- request: %r'')]\<rparr>"
  let ?mreq = "\<lparr>rpm_pduDestination = ''2:5'',
                rpm_listOfReadAccessSpecs =
                  [\<lparr>ras_objectIdentifier = (Name ''analogInput'', 1),
                    ras_listOfPropertyReferences =
                      [\<lparr>pr_propertyIdentifier = ''presentValue'', pr_propertyArrayIndex = None\<rparr>,
                       \<lparr>pr_propertyIdentifier = ''units'', pr_propertyArrayIndex = None\<rparr>]\<rparr>]\<rparr>"
  let ?mw1 = "\<lparr>gateway = [?done], sent = [],
               logged = [(DEBUG, ''readMultiple %r''), (DEBUG, ''    - request: %r'')]\<rparr>"
  let ?mw2 = "\<lparr>gateway = [], sent = [ReadPropertyMultipleRequest ?mreq],
               logged = [(DEBUG, ''readMultiple %r''), (DEBUG, ''    - request: %r'')]\<rparr>"
  have s: "started ?E" by (simp add: sim_def)
  have r1: "build_rp_request ?E (py_split ''2:5 analogInput 1 presentValue'') None 0
              (log_debug ''do_read %r'' (fresh [?done])) = (Inr ?req, ?w1)"
    by code_simp
  have r2: "submit ?E (ReadPropertyRequest ?req) ?w1 = (?done, ?w2)"
    by code_simp
  have r3: "ioResponse ?done = Some SimpleAckPDU"
    by (simp add: response_def)
  have m1: "build_rpm_request ?E (py_split ''2:5 analogInput 1 presentValue units'')
              (log_debug ''readMultiple %r'' (fresh [?done])) = (Inr ?mreq, ?mw1)"
    by code_simp
  have m2: "submit ?E (ReadPropertyMultipleRequest ?mreq) ?mw1 = (?done, ?mw2)"
    by code_simp
  show ?thesis
    using unexpected_response_returns_None
            [where E = ?E and n = 0
               and args = "''2:5 analogInput 1 presentValue''" and arr_index = None
               and vendor_id = 0 and w = "fresh [?done]" and req = ?req and ?w1.0 = ?w1
               and iocb = ?done and ?w2.0 = ?w2 and apdu = SimpleAckPDU
               and margs = "''2:5 analogInput 1 presentValue units''" and mw = "fresh [?done]"
               and mreq = ?mreq and ?mw1.0 = ?mw1 and miocb = ?done and ?mw2.0 = ?mw2
               and mapdu = SimpleAckPDU]
          s r1 r2 r3 m1 m2
    by (simp add: log_warning_def log_debug_def)
qed

subsection \<open>build_wp_request: the value of an array-length write\<close>

text \<open>A library for \<^verbatim>\<open>build_wp_request\<close> that records its calls: a constructed object is
  the pair of the class called and the argument given, and \<^verbatim>\<open>cast_in\<close> keeps the object
  as it is.\<close>

definition sim_write :: "(bac_type \<times> pyval, bac_type \<times> pyval) bacnet_write" where
  "sim_write =
     \<lparr>w_get_datatype = sim_get_datatype,
      w_mk_Address = Inr,
      construct = (\<lambda>t v. Inr (t, v)),
      Null = (OtherAtomic ''Null'', PyNone),
      py_float = (\<lambda>s. Inr (PyObject s)),
      cast_in = Inr,
      Any = (Constructed ''Any'', PyNone)\<rparr>"

text \<open>What a request that \<^verbatim>\<open>build_wp_request\<close> returns holds: its identifiers and its
  index are the ones the value was made encodeable with, and its value is that object
  cast in, or the empty \<^verbatim>\<open>Any\<close> after a WritePropertyCastError.\<close>

lemma build_wp_request_value:
  assumes "build_wp_request L args vendor_id w = (Inr request, w')"
  shows "\<exists>v. encodeable L
               (w_get_datatype L (fst (wq_objectIdentifier request))
                  (wq_propertyIdentifier request) vendor_id)
               (wq_propertyArrayIndex request) (args ! 4) = Inr v
             \<and> (cast_in L v = Inr (wq_propertyValue request)
                \<or> cast_in L v = Inl WritePropertyCastError \<and> wq_propertyValue request = Any L)"
proof -
  obtain addr obj_type_tok obj_inst_tok prop_id_tok where
    toks: "take 4 args = [addr, obj_type_tok, obj_inst_tok, prop_id_tok]"
    using assms
    by (auto simp: build_wp_request_def split: list.splits)
  from assms toks obtain obj_type where
    ot: "(if isdigit obj_type_tok then map_sum id Num (py_int obj_type_tok)
          else Inr (Name obj_type_tok)) = Inr obj_type"
    by (cases "if isdigit obj_type_tok then map_sum id Num (py_int obj_type_tok)
               else Inr (Name obj_type_tok)")
       (auto simp: build_wp_request_def)
  from assms toks ot obtain obj_inst where
    oi: "py_int obj_inst_tok = Inr obj_inst"
    by (cases "py_int obj_inst_tok") (auto simp: build_wp_request_def)
  from assms toks ot oi have len: "\<not> length args < 5"
    by (auto simp: build_wp_request_def split: if_splits)
  from assms toks ot oi len obtain indx where
    ix: "wp_indx args = Inr indx"
    by (cases "wp_indx args") (auto simp: build_wp_request_def)
  from assms toks ot oi len ix obtain priority where
    pr: "wp_priority args = Inr priority"
    by (cases "wp_priority args") (auto simp: build_wp_request_def)
  from assms toks ot oi len ix pr obtain prop_id where
    pid: "(if isdigit prop_id_tok then map_sum id Num (py_int prop_id_tok)
           else Inr (Name prop_id_tok)) = Inr prop_id"
    by (cases "if isdigit prop_id_tok then map_sum id Num (py_int prop_id_tok)
               else Inr (Name prop_id_tok)")
       (auto simp: build_wp_request_def)
  from assms toks ot oi len ix pr pid obtain v where
    enc: "encodeable L (w_get_datatype L obj_type prop_id vendor_id) indx (args ! 4) = Inr v"
    by (cases "encodeable L (w_get_datatype L obj_type prop_id vendor_id) indx (args ! 4)")
       (auto simp: build_wp_request_def Let_def)
  from assms toks ot oi len ix pr pid enc obtain dest where
    ad: "w_mk_Address L addr = Inr dest"
    by (cases "w_mk_Address L addr") (auto simp: build_wp_request_def Let_def)
  from assms toks ot oi len ix pr pid enc ad
  have "wq_objectIdentifier request = (obj_type, obj_inst)
        \<and> wq_propertyIdentifier request = prop_id
        \<and> wq_propertyArrayIndex request = indx
        \<and> (cast_in L v = Inr (wq_propertyValue request)
           \<or> cast_in L v = Inl WritePropertyCastError \<and> wq_propertyValue request = Any L)"
    by (cases "cast_in L v")
       (auto simp: build_wp_request_def Let_def split: if_splits)
  with enc show ?thesis by auto
qed

text \<open>
  C5 (the code departs from the claim). The claim: in a write to index 0 of an array the
  value token is encoded as an unsigned integer. For \<^verbatim>\<open>2:5 device 5 objectList 3 0\<close> the
  value of the request is the object that the class Integer makes of the unparsed
  token: the code calls \<^verbatim>\<open>Integer(value)\<close>, where \<^verbatim>\<open>read\<close> casts index 0 out as
  Unsigned, and it does not parse the token first as the atomic branch does.
\<close>

theorem build_wp_request_array_length_calls_Integer:
  "map_sum id wq_propertyValue
     (fst (build_wp_request sim_write (py_split ''2:5 device 5 objectList 3 0'') 0 (fresh ())))
   = Inr (Integer, PyStr ''3'')"
  by code_simp

text \<open>The same for every library and every request that \<^verbatim>\<open>build_wp_request\<close> returns
  for index 0 of an array: a token other than \<^verbatim>\<open>null\<close> goes unparsed to the constructor
  of Integer, and the token \<^verbatim>\<open>null\<close> gives Null.\<close>

lemma build_wp_request_array_length:
  assumes "build_wp_request L args vendor_id w = (Inr request, w')"
    and "w_get_datatype L (fst (wq_objectIdentifier request)) (wq_propertyIdentifier request)
           vendor_id = Some (ArrayOf element_type)"
    and "wq_propertyArrayIndex request = Some 0"
  shows "\<exists>v. (if args ! 4 = ''null'' then Inr (Null L)
              else construct L Integer (PyStr (args ! 4))) = Inr v
             \<and> (cast_in L v = Inr (wq_propertyValue request)
                \<or> cast_in L v = Inl WritePropertyCastError \<and> wq_propertyValue request = Any L)"
proof -
  have "encodeable L (Some (ArrayOf element_type)) (Some 0) (args ! 4)
          = (if args ! 4 = ''null'' then Inr (Null L)
             else construct L Integer (PyStr (args ! 4)))"
    by (simp add: encodeable_def)
  with build_wp_request_value [OF assms(1)] show ?thesis
    unfolding assms(2,3) by simp
qed

subsection \<open>The segmentation fallback\<close>

text \<open>
  What the stack in state \<open>g\<close> has for a read request: \<open>Some (v, g')\<close> when it completes
  the request with a ReadPropertyACK that \<^verbatim>\<open>read\<close> decodes to \<open>v\<close>, \<open>g'\<close> being its next
  state, and \<open>None\<close> when it answers in any other way or the value does not decode.
\<close>

definition device_answer ::
  "('a, 'g) bacnet \<Rightarrow> int \<Rightarrow> 'g \<Rightarrow> rp_request \<Rightarrow> (pyval \<times> 'g) option" where
  "device_answer E vendor_id g req =
     (case request_io E g (ReadPropertyRequest req) of
        (iocb, g') \<Rightarrow>
          (case ioResponse iocb of
             Some (ReadPropertyACK ack) \<Rightarrow>
               (case get_datatype E (fst (ack_objectIdentifier ack)) (ack_propertyIdentifier ack)
                       vendor_id of
                  None \<Rightarrow> None
                | Some dt \<Rightarrow>
                    (case cast_out_array_part E dt (ack_propertyArrayIndex ack)
                            (ack_propertyValue ack) of
                       Inl e \<Rightarrow> None
                     | Inr v \<Rightarrow> Some (v, g')))
           | _ \<Rightarrow> None))"

text \<open>A device that does not support segmentation: it aborts the first request it gets,
  and from then on answers a read of index 0 with the count 3 and a read of index
  \<open>i\<close> with the element \<open>i\<close>. Its state is the number of requests it has seen.\<close>

definition unsegmented_device ::
  "nat \<Rightarrow> request \<Rightarrow> (bac_type \<times> pyval) iocb \<times> nat" where
  "unsegmented_device seen req =
     (case req of
        ReadPropertyRequest r \<Rightarrow>
          (if seen = 0 then failed (AbortPDU 4)
           else
             (case rq_propertyArrayIndex r of
                None \<Rightarrow> failed (AbortPDU 4)
              | Some i \<Rightarrow>
                  response (ReadPropertyACK
                    \<lparr>ack_objectIdentifier = rq_objectIdentifier r,
                     ack_propertyIdentifier = rq_propertyIdentifier r,
                     ack_propertyArrayIndex = Some i,
                     ack_propertyValue =
                       (if i = 0 then (Unsigned, PyInt 3)
                        else (OtherAtomic ''ObjectIdentifier'', PyInt i))\<rparr>)),
           Suc seen)
      | ReadPropertyMultipleRequest r \<Rightarrow> (failed (RejectPDU 9), Suc seen))"

text \<open>\<^verbatim>\<open>build_rp_request\<close> changes nothing but the log, and with four tokens the index of
  the request is the parameter \<^verbatim>\<open>arr_index\<close>: the same tokens give the same request for
  any other index, if the datatype resolves for the vendor asked.\<close>

lemma build_rp_request_frame:
  "build_rp_request E args arr_index vendor_id w = (r, w1)
     \<Longrightarrow> gateway w1 = gateway w \<and> sent w1 = sent w"
  by (auto simp: build_rp_request_def Let_def log_debug_def
           split: list.splits sum.splits option.splits if_splits)

lemma build_rp_request_other_index:
  assumes "length args = 4"
    and "build_rp_request E args arr_index vendor_id w = (Inr req, w1)"
    and "get_datatype E (fst (rq_objectIdentifier req)) (rq_propertyIdentifier req) vendor_id'
           \<noteq> None"
  shows "build_rp_request E args arr_index' vendor_id' w'
           = (Inr (req\<lparr>rq_propertyArrayIndex := arr_index'\<rparr>), log_debug ''- request: %r'' w')"
proof -
  obtain addr obj_type_tok obj_inst_tok prop_id_tok where
    toks: "args = [addr, obj_type_tok, obj_inst_tok, prop_id_tok]"
    using assms(1)
    by (cases args; cases "tl args"; cases "tl (tl args)"; cases "tl (tl (tl args))") auto
  from assms(2) toks obtain obj_type where
    ot: "(if isdigit obj_type_tok then map_sum id Num (py_int obj_type_tok)
          else if \<not> get_object_class E obj_type_tok then Inl ValueError
          else Inr (Name obj_type_tok)) = Inr obj_type"
    by (cases "if isdigit obj_type_tok then map_sum id Num (py_int obj_type_tok)
               else if \<not> get_object_class E obj_type_tok then Inl ValueError
               else Inr (Name obj_type_tok)")
       (auto simp: build_rp_request_def)
  from assms(2) toks ot obtain obj_inst where
    oi: "py_int obj_inst_tok = Inr obj_inst"
    by (cases "py_int obj_inst_tok") (auto simp: build_rp_request_def)
  from assms(2) toks ot oi obtain prop_id where
    pid: "(if isdigit prop_id_tok then map_sum id Num (py_int prop_id_tok)
           else Inr (Name prop_id_tok)) = Inr prop_id"
    by (cases "if isdigit prop_id_tok then map_sum id Num (py_int prop_id_tok)
               else Inr (Name prop_id_tok)")
       (auto simp: build_rp_request_def)
  from assms(2) toks ot oi pid obtain dt where
    dt: "get_datatype E obj_type prop_id vendor_id = Some dt"
    by (cases "get_datatype E obj_type prop_id vendor_id") (auto simp: build_rp_request_def)
  from assms(2) toks ot oi pid dt obtain dest where
    ad: "mk_Address E addr = Inr dest"
    by (cases "mk_Address E addr") (auto simp: build_rp_request_def)
  from assms(2) toks ot oi pid dt ad
  have req: "req = \<lparr>rq_pduDestination = dest, rq_objectIdentifier = (obj_type, obj_inst),
                    rq_propertyIdentifier = prop_id, rq_propertyArrayIndex = arr_index\<rparr>"
    by (auto simp: build_rp_request_def Let_def)
  with assms(3) obtain dt' where
    dt': "get_datatype E obj_type prop_id vendor_id' = Some dt'"
    by auto
  from toks ot oi pid dt' ad req show ?thesis
    by (simp add: build_rp_request_def Let_def)
qed

text \<open>A read whose request the stack answers with a value returns that value, after one
  request.\<close>

lemma read_direct_value:
  assumes "started E"
    and "build_rp_request E (py_split args) arr_index vendor_id (log_debug ''do_read %r'' w)
           = (Inr req, w1)"
    and "device_answer E vendor_id (gateway w) req = Some (v, g')"
  shows "\<exists>w'. read E (Suc n) w args arr_index vendor_id = Some (Inr v, w')
              \<and> gateway w' = g' \<and> sent w' = sent w @ [ReadPropertyRequest req]"
proof -
  from build_rp_request_frame [OF assms(2)]
  have fr: "gateway w1 = gateway w" "sent w1 = sent w"
    by (simp_all add: log_debug_def)
  obtain iocb g1 where io: "request_io E (gateway w) (ReadPropertyRequest req) = (iocb, g1)"
    by (cases "request_io E (gateway w) (ReadPropertyRequest req)")
  from assms(3) io obtain ack dt where
    ack: "ioResponse iocb = Some (ReadPropertyACK ack)"
    and dt: "get_datatype E (fst (ack_objectIdentifier ack)) (ack_propertyIdentifier ack)
               vendor_id = Some dt"
    and v: "cast_out_array_part E dt (ack_propertyArrayIndex ack) (ack_propertyValue ack)
              = Inr v"
    and g: "g1 = g'"
    by (auto simp: device_answer_def split: option.splits apdu.splits sum.splits)
  let ?w2 = "w1\<lparr>gateway := g1, sent := sent w1 @ [ReadPropertyRequest req]\<rparr>"
  have sub: "submit E (ReadPropertyRequest req) w1 = (iocb, ?w2)"
    using io fr by (simp add: submit_def)
  have "read_body E w args arr_index vendor_id
          = Direct (read_ioResponse E vendor_id (ReadPropertyACK ack)
                     (log_debug ''    - iocb: %r'' ?w2))"
    by (rule read_body_response [OF assms(1,2) sub ack])
  moreover have "read_ioResponse E vendor_id (ReadPropertyACK ack)
                   (log_debug ''    - iocb: %r'' ?w2)
        = (Inr v, log_debug ''    - value: %r''
                    (log_debug ''    - datatype: %r'' (log_debug ''    - iocb: %r'' ?w2)))"
    using dt v by (simp add: read_ioResponse_def)
  ultimately show ?thesis
    using fr g by (simp add: log_debug_def)
qed

text \<open>The loop of the fallback, when the stack answers every element read with a
  value: one request for each index, in order, and the values in that order.\<close>

lemma split_loop_values:
  assumes "started E"
    and "\<And>i w0. build_rp_request E (py_split args) (Some i) 0 (log_debug ''do_read %r'' w0)
           = (Inr (rq i), log_debug ''- request: %r'' (log_debug ''do_read %r'' w0))"
    and "\<forall>i\<in>{k..N}. device_answer E 0 (gs i) (rq i) = Some (vs i, gs (i + 1))"
    and "gateway w = gs k"
  shows "\<exists>w'. split_loop E (Suc n) w args [k..N] objlist
                = Some (Inr (PyList (objlist @ map vs [k..N])), w')
              \<and> gateway w' = gs (max k (N + 1))
              \<and> sent w' = sent w @ map (\<lambda>i. ReadPropertyRequest (rq i)) [k..N]"
  using assms(3,4)
proof (induction k N arbitrary: w objlist rule: upto.induct)
  case (1 k N)
  show ?case
  proof (cases "k \<le> N")
    case False
    then have "max k (N + 1) = k" by simp
    with False "1.prems" show ?thesis by simp
  next
    case True
    then have up: "[k..N] = k # [k + 1..N]" by (rule upto_rec1)
    from True "1.prems" have "device_answer E 0 (gateway w) (rq k) = Some (vs k, gs (k + 1))"
      by simp
    from read_direct_value [OF assms(1) assms(2) this, of n]
    obtain w1 where
      rd: "read E (Suc n) w args (Some k) 0 = Some (Inr (vs k), w1)"
      and g1: "gateway w1 = gs (k + 1)"
      and s1: "sent w1 = sent w @ [ReadPropertyRequest (rq k)]"
      by blast
    have "\<forall>i\<in>{k + 1..N}. device_answer E 0 (gs i) (rq i) = Some (vs i, gs (i + 1))"
      using "1.prems"(1) by simp
    from "1.IH" [OF True this g1, of "objlist @ [vs k]"]
    obtain w' where
      lp: "split_loop E (Suc n) w1 args [k + 1..N] (objlist @ [vs k])
             = Some (Inr (PyList ((objlist @ [vs k]) @ map vs [k + 1..N])), w')"
      and g': "gateway w' = gs (max (k + 1) (N + 1))"
      and s': "sent w' = sent w1 @ map (\<lambda>i. ReadPropertyRequest (rq i)) [k + 1..N]"
      by blast
    from True have "max (k + 1) (N + 1) = max k (N + 1)" by simp
    with rd lp g' s' s1 show ?thesis
      by (simp add: up)
  qed
qed

text \<open>
  C2 (as stated, refuted). The claim: after a failure with the reason
  segmentationNotSupported, \<^verbatim>\<open>read\<close> reads index 0, then the indices 1 to N, and returns
  a list of N elements. Three runs where it does not. In the first the stack aborts the
  first request, answers index 0 with the count 2 and index 1 with a value, and aborts
  the read of index 2 for another reason: \<^verbatim>\<open>read\<close> raises NoResponseFromController. In
  the second the command has a fifth token, whose index \<^verbatim>\<open>build_rp_request\<close> puts into
  every request: for \<^verbatim>\<open>2:5 device 5 objectList 3\<close> no request asks for index 0. In the
  third the property is known for vendor 5 only: the reads of the fallback run with
  vendor 0, and the first of them raises ValueError.
\<close>

theorem read_segmentation_fallback_counterexample:
  "map_option
     (\<lambda>(r, w). (r, map (\<lambda>q. case q of
                              ReadPropertyRequest rq \<Rightarrow> rq_propertyArrayIndex rq
                            | ReadPropertyMultipleRequest rq \<Rightarrow> None) (sent w)))
     (read (sim scripted) 2
        (fresh [failed (AbortPDU 4),
                response (ReadPropertyACK
                  \<lparr>ack_objectIdentifier = (Name ''device'', 5),
                   ack_propertyIdentifier = Name ''objectList'',
                   ack_propertyArrayIndex = Some 0,
                   ack_propertyValue = (Unsigned, PyInt 2)\<rparr>),
                response (ReadPropertyACK
                  \<lparr>ack_objectIdentifier = (Name ''device'', 5),
                   ack_propertyIdentifier = Name ''objectList'',
                   ack_propertyArrayIndex = Some 1,
                   ack_propertyValue = (OtherAtomic ''ObjectIdentifier'', PyInt 11)\<rparr>),
                failed (AbortPDU 0)])
        ''2:5 device 5 objectList'' None 0)
     = Some (Inl NoResponseFromController, [None, Some 0, Some 1, Some 2])
   \<and> map_option
       (\<lambda>(r, w). (r, map (\<lambda>q. case q of
                                ReadPropertyRequest rq \<Rightarrow> rq_propertyArrayIndex rq
                              | ReadPropertyMultipleRequest rq \<Rightarrow> None) (sent w)))
       (read (sim unsegmented_device) 2 (fresh 0) ''2:5 device 5 objectList 3'' None 0)
     = Some (Inr (PyList [PyInt 3, PyInt 3, PyInt 3]), [Some 3, Some 3, Some 3, Some 3, Some 3])
   \<and> map_option
       (\<lambda>(r, w). (r, map (\<lambda>q. case q of
                                ReadPropertyRequest rq \<Rightarrow> rq_propertyArrayIndex rq
                              | ReadPropertyMultipleRequest rq \<Rightarrow> None) (sent w)))
       (read (sim unsegmented_device) 2 (fresh 0) ''2:5 device 5 1234'' None 5)
     = Some (Inl ValueError, [None])"
  by code_simp

text \<open>
  C2 (amended). For every single-object read of a command of four tokens (no index
  token) whose failure response classifies as segmentationNotSupported, and whose
  property resolves to a datatype for vendor 0: \<^verbatim>\<open>read\<close> falls back to reads by index. It
  reads index 0; when the stack answers that read with the integer N and the read of
  each index from 1 to N with a value, \<^verbatim>\<open>read\<close> has sent, after the first request, one
  request for index 0 and then one for each index from 1 to N in ascending order, and
  it returns the list of exactly those N values in that order. \<open>gs i\<close> is the state of
  the stack before the read of index \<open>i\<close>.
\<close>

theorem read_segmentation_fallback:
  assumes "started E"
    and "length (py_split args) = 4"
    and "build_rp_request E (py_split args) arr_index vendor_id (log_debug ''do_read %r'' w)
           = (Inr req, w1)"
    and "submit E (ReadPropertyRequest req) w1 = (iocb, w2)"
    and "ioResponse iocb = None"
    and "ioError iocb = Some err"
    and "find_reason E err = Inr (PyStr ''segmentationNotSupported'')"
    and "get_datatype E (fst (rq_objectIdentifier req)) (rq_propertyIdentifier req) 0 \<noteq> None"
    and "gateway w2 = gs 0"
    and "device_answer E 0 (gs 0) (req\<lparr>rq_propertyArrayIndex := Some 0\<rparr>)
           = Some (PyInt N, gs 1)"
    and "\<forall>i\<in>{1..N}. device_answer E 0 (gs i) (req\<lparr>rq_propertyArrayIndex := Some i\<rparr>)
           = Some (vs i, gs (i + 1))"
  shows "\<exists>w'. read E (Suc (Suc n)) w args arr_index vendor_id
                = Some (Inr (PyList (map vs [1..N])), w')
              \<and> length (map vs [1..N]) = nat N
              \<and> sent w' = sent w @ ReadPropertyRequest req
                            # ReadPropertyRequest (req\<lparr>rq_propertyArrayIndex := Some 0\<rparr>)
                            # map (\<lambda>i. ReadPropertyRequest (req\<lparr>rq_propertyArrayIndex := Some i\<rparr>))
                                [1..N]
              \<and> gateway w' = gs (max 1 (N + 1))"
proof -
  let ?rq = "\<lambda>i. req\<lparr>rq_propertyArrayIndex := Some i\<rparr>"
  let ?w3 = "log_debug ''The Request was : %s''
               (log_debug ''Segmentation not supported... will read properties one by one...''
                 (log_debug ''    - iocb: %r'' w2))"
  have build: "build_rp_request E (py_split args) (Some i) 0 (log_debug ''do_read %r'' w0)
                 = (Inr (?rq i), log_debug ''- request: %r'' (log_debug ''do_read %r'' w0))"
    for i w0
    by (rule build_rp_request_other_index [OF assms(2,3,8)])
  have "read_body E w args arr_index vendor_id = PerIndex ?w3"
    using read_body_failure [OF assms(1,3,4,5,6,7)] by simp
  then have top: "read E (Suc (Suc n)) w args arr_index vendor_id
                    = split_the_read_request E (Suc n) ?w3 args arr_index"
    by simp
  from build_rp_request_frame [OF assms(3)]
  have fr1: "sent w1 = sent w"
    by (simp add: log_debug_def)
  from assms(4) have s2: "sent w2 = sent w @ [ReadPropertyRequest req]"
    using fr1 by (auto simp: submit_def split: prod.splits)
  have g3: "gateway ?w3 = gs 0" and s3: "sent ?w3 = sent w @ [ReadPropertyRequest req]"
    using assms(9) s2 by (simp_all add: log_debug_def)
  from assms(10) g3 have "device_answer E 0 (gateway ?w3) (?rq 0) = Some (PyInt N, gs 1)"
    by simp
  from read_direct_value [OF assms(1) build this, of n]
  obtain w4 where
    rd0: "read E (Suc n) ?w3 args (Some 0) 0 = Some (Inr (PyInt N), w4)"
    and g4: "gateway w4 = gs 1"
    and s4: "sent w4 = sent ?w3 @ [ReadPropertyRequest (?rq 0)]"
    by blast
  from split_loop_values [OF assms(1) build assms(11) g4, of n "[]"]
  obtain w' where
    lp: "split_loop E (Suc n) w4 args [1..N] [] = Some (Inr (PyList (map vs [1..N])), w')"
    and g': "gateway w' = gs (max 1 (N + 1))"
    and s': "sent w' = sent w4 @ map (\<lambda>i. ReadPropertyRequest (?rq i)) [1..N]"
    by auto
  from top rd0 lp have "read E (Suc (Suc n)) w args arr_index vendor_id
                          = Some (Inr (PyList (map vs [1..N])), w')"
    by simp
  with g' s' s4 s3 show ?thesis
    by simp
qed

theorem read_segmentation_fallback_witness:
  "map_option
     (\<lambda>(r, w). (r, map (\<lambda>q. case q of
                              ReadPropertyRequest rq \<Rightarrow> rq_propertyArrayIndex rq
                            | ReadPropertyMultipleRequest rq \<Rightarrow> None) (sent w)))
     (read (sim unsegmented_device) (Suc (Suc 0)) (fresh 0) ''2:5 device 5 objectList'' None 0)
   = Some (Inr (PyList [PyInt 1, PyInt 2, PyInt 3]), [None, Some 0, Some 1, Some 2, Some 3])"
proof -
  let ?E = "sim unsegmented_device"
  let ?args = "''2:5 device 5 objectList''"
  let ?req = "\<lparr>rq_pduDestination = ''2:5'', rq_objectIdentifier = (Name ''device'', 5),
               rq_propertyIdentifier = Name ''objectList'', rq_propertyArrayIndex = None\<rparr>"
  let ?w1 = "\<lparr>gateway = 0 :: nat, sent = [],
              logged = [(DEBUG, ''do_read %r''), (DEBUG, ''- request: %r'')]\<rparr>"
  let ?w2 = "\<lparr>gateway = Suc 0, sent = [ReadPropertyRequest ?req],
              logged = [(DEBUG, ''do_read %r''), (DEBUG, ''- request: %r'')]\<rparr>"
  let ?iocb = "failed (AbortPDU 4) :: (bac_type \<times> pyval) iocb"
  let ?gs = "\<lambda>i :: int. Suc (nat i)"
  have 1: "started ?E" by (simp add: sim_def)
  have 2: "length (py_split ?args) = 4" by code_simp
  have 3: "build_rp_request ?E (py_split ?args) None 0 (log_debug ''do_read %r'' (fresh 0))
             = (Inr ?req, ?w1)"
    by code_simp
  have 4: "submit ?E (ReadPropertyRequest ?req) ?w1 = (?iocb, ?w2)"
    by code_simp
  have 5: "ioResponse ?iocb = None" by (simp add: failed_def)
  have 6: "ioError ?iocb = Some (AbortPDU 4)" by (simp add: failed_def)
  have 7: "find_reason ?E (AbortPDU 4) = Inr (PyStr ''segmentationNotSupported'')"
    by code_simp
  have 8: "get_datatype ?E (fst (rq_objectIdentifier ?req)) (rq_propertyIdentifier ?req) 0
             \<noteq> None"
    by (simp add: sim_def)
  have 9: "gateway ?w2 = ?gs 0" by simp
  have 10: "device_answer ?E 0 (?gs 0) (?req\<lparr>rq_propertyArrayIndex := Some 0\<rparr>)
              = Some (PyInt 3, ?gs 1)"
    by (simp add: device_answer_def sim_def unsegmented_device_def response_def
                  cast_out_array_part_def sim_cast_out_def)
  have 11: "\<forall>i\<in>{1..3}. device_answer ?E 0 (?gs i) (?req\<lparr>rq_propertyArrayIndex := Some i\<rparr>)
              = Some (PyInt i, ?gs (i + 1))"
    by (auto simp: device_answer_def sim_def unsegmented_device_def response_def
                   cast_out_array_part_def sim_cast_out_def nat_add_distrib)
  have idx: "[1..3::int] = [1, 2, 3]" by code_simp
  from read_segmentation_fallback [OF 1 2 3 4 5 6 7 8 9 10 11, of 0]
  show ?thesis
    by (auto simp: idx fresh_def)
qed

text \<open>
  C7 (as stated, refuted). The claim: the fallback never nests; a segmentation failure
  of an element read is raised to the caller. Here the stack aborts the first request
  with segmentationNotSupported, answers the read of index 0 with the count 1, aborts
  the read of index 1 in the same way, and then answers a read of index 0 with 1 and a
  read of index 1 with the value 7. \<^verbatim>\<open>read\<close> raises nothing: the element read has run a
  fallback of its own, and the list that it returned is the element.
\<close>

theorem nested_segmentation_failure_counterexample:
  "map_option fst
     (read (sim scripted) 3
        (fresh [failed (AbortPDU 4),
                response (ReadPropertyACK
                  \<lparr>ack_objectIdentifier = (Name ''device'', 5),
                   ack_propertyIdentifier = Name ''objectList'',
                   ack_propertyArrayIndex = Some 0,
                   ack_propertyValue = (Unsigned, PyInt 1)\<rparr>),
                failed (AbortPDU 4),
                response (ReadPropertyACK
                  \<lparr>ack_objectIdentifier = (Name ''device'', 5),
                   ack_propertyIdentifier = Name ''objectList'',
                   ack_propertyArrayIndex = Some 0,
                   ack_propertyValue = (Unsigned, PyInt 1)\<rparr>),
                response (ReadPropertyACK
                  \<lparr>ack_objectIdentifier = (Name ''device'', 5),
                   ack_propertyIdentifier = Name ''objectList'',
                   ack_propertyArrayIndex = Some 1,
                   ack_propertyValue = (OtherAtomic ''ObjectIdentifier'', PyInt 7)\<rparr>)])
        ''2:5 device 5 objectList'' None 0)
   = Some (Inr (PyList [PyList [PyInt 7]]))"
  by code_simp

text \<open>
  C7 (amended). The fallback has no guard against nesting. A read that the fallback
  issues for an index is an ordinary call of \<^verbatim>\<open>read\<close>: when its failure response
  classifies as segmentationNotSupported, it starts a fallback of its own for the same
  command, and what that fallback returns becomes the element, what it raises is raised
  by the loop.
\<close>

theorem nested_segmentation_failure_falls_back_again:
  assumes "started E"
    and "build_rp_request E (py_split args) (Some i) 0 (log_debug ''do_read %r'' w)
           = (Inr req, w1)"
    and "submit E (ReadPropertyRequest req) w1 = (iocb, w2)"
    and "ioResponse iocb = None"
    and "ioError iocb = Some err"
    and "find_reason E err = Inr (PyStr ''segmentationNotSupported'')"
    and "w3 = log_debug ''The Request was : %s''
                (log_debug ''Segmentation not supported... will read properties one by one...''
                  (log_debug ''    - iocb: %r'' w2))"
  shows "read E (Suc n) w args (Some i) 0 = split_the_read_request E n w3 args (Some i)
       \<and> split_loop E (Suc n) w args (i # indices) objlist
           = (case split_the_read_request E n w3 args (Some i) of
                None \<Rightarrow> None
              | Some (Inl e, w4) \<Rightarrow> Some (Inl e, w4)
              | Some (Inr v, w4) \<Rightarrow> split_loop E (Suc n) w4 args indices (objlist @ [v]))"
proof -
  have "read_body E w args (Some i) 0 = PerIndex w3"
    using read_body_failure [OF assms(1-6)] assms(7) by simp
  then have "read E (Suc n) w args (Some i) 0 = split_the_read_request E n w3 args (Some i)"
    by simp
  then show ?thesis
    by (simp del: read.simps split_the_read_request.simps)
qed

theorem nested_segmentation_failure_falls_back_again_witness:
  "map_option fst
     (read (sim scripted) (Suc 1)
        (fresh [failed (AbortPDU 4),
                response (ReadPropertyACK
                  \<lparr>ack_objectIdentifier = (Name ''device'', 5),
                   ack_propertyIdentifier = Name ''objectList'',
                   ack_propertyArrayIndex = Some 0,
                   ack_propertyValue = (Unsigned, PyInt 1)\<rparr>),
                response (ReadPropertyACK
                  \<lparr>ack_objectIdentifier = (Name ''device'', 5),
                   ack_propertyIdentifier = Name ''objectList'',
                   ack_propertyArrayIndex = Some 1,
                   ack_propertyValue = (OtherAtomic ''ObjectIdentifier'', PyInt 7)\<rparr>)])
        ''2:5 device 5 objectList'' (Some 1) 0)
   = Some (Inr (PyList [PyInt 7]))"
proof -
  let ?E = "sim scripted :: (bac_type \<times> pyval, (bac_type \<times> pyval) iocb list) bacnet"
  let ?args = "''2:5 device 5 objectList''"
  let ?abort = "failed (AbortPDU 4) :: (bac_type \<times> pyval) iocb"
  let ?rest = "[response (ReadPropertyACK
                  \<lparr>ack_objectIdentifier = (Name ''device'', 5),
                   ack_propertyIdentifier = Name ''objectList'',
                   ack_propertyArrayIndex = Some 0,
                   ack_propertyValue = (Unsigned, PyInt 1)\<rparr>),
                response (ReadPropertyACK
                  \<lparr>ack_objectIdentifier = (Name ''device'', 5),
                   ack_propertyIdentifier = Name ''objectList'',
                   ack_propertyArrayIndex = Some 1,
                   ack_propertyValue = (OtherAtomic ''ObjectIdentifier'', PyInt 7)\<rparr>)]"
  let ?req = "\<lparr>rq_pduDestination = ''2:5'', rq_objectIdentifier = (Name ''device'', 5),
               rq_propertyIdentifier = Name ''objectList'', rq_propertyArrayIndex = Some 1\<rparr>"
  let ?w1 = "\<lparr>gateway = ?abort # ?rest, sent = [],
              logged = [(DEBUG, ''do_read %r''), (DEBUG, ''- request: %r'')]\<rparr>"
  let ?w2 = "\<lparr>gateway = ?rest, sent = [ReadPropertyRequest ?req],
              logged = [(DEBUG, ''do_read %r''), (DEBUG, ''- request: %r'')]\<rparr>"
  let ?w3 = "\<lparr>gateway = ?rest, sent = [ReadPropertyRequest ?req],
              logged = [(DEBUG, ''do_read %r''), (DEBUG, ''- request: %r''),
                        (DEBUG, ''    - iocb: %r''),
                        (DEBUG, ''Segmentation not supported... will read properties one by one...''),
                        (DEBUG, ''The Request was : %s'')]\<rparr>"
  have 1: "started ?E" by (simp add: sim_def)
  have 2: "build_rp_request ?E (py_split ?args) (Some 1) 0
             (log_debug ''do_read %r'' (fresh (?abort # ?rest))) = (Inr ?req, ?w1)"
    by code_simp
  have 3: "submit ?E (ReadPropertyRequest ?req) ?w1 = (?abort, ?w2)"
    by code_simp
  have 4: "ioResponse ?abort = None" by (simp add: failed_def)
  have 5: "ioError ?abort = Some (AbortPDU 4)" by (simp add: failed_def)
  have 6: "find_reason ?E (AbortPDU 4) = Inr (PyStr ''segmentationNotSupported'')"
    by code_simp
  have 7: "?w3 = log_debug ''The Request was : %s''
                   (log_debug ''Segmentation not supported... will read properties one by one...''
                     (log_debug ''    - iocb: %r'' ?w2))"
    by (simp add: log_debug_def)
  have inner: "map_option fst (split_the_read_request ?E 1 ?w3 ?args (Some 1))
                 = Some (Inr (PyList [PyInt 7]))"
    by code_simp
  from nested_segmentation_failure_falls_back_again [OF 1 2 3 4 5 6 7, of 1 "[]" "[]"]
  have "read ?E (Suc 1) (fresh (?abort # ?rest)) ?args (Some 1) 0
          = split_the_read_request ?E 1 ?w3 ?args (Some 1)"
    by (rule conjunct1)
  with inner show ?thesis
    by (simp del: read.simps split_the_read_request.simps)
qed

end
